theory Spec2Isabelle
  imports Complex_Main
begin

section \<open>Outcomes of a run\<close>

text \<open>
  The Python exceptions that \<^verbatim>\<open>seq2seq_datatable.py\<close> and the library calls it makes can raise.
\<close>

datatype error = IOError | ValueError | AssertionError | IndexError | KeyError | TypeError

text \<open>
  A call prints lines on standard output and then either raises or returns a value.  The
  printed lines are kept also when the call raises.
\<close>

type_synonym 'a run = "string list \<times> (error + 'a)"

definition ret :: "'a \<Rightarrow> 'a run" where
  "ret x = ([], Inr x)"

definition raise :: "error \<Rightarrow> 'a run" where
  "raise e = ([], Inl e)"

definition print :: "string \<Rightarrow> unit run" where
  "print s = ([s], Inr ())"

text \<open>Sequencing: the second statement runs only when the first one has not raised.\<close>

definition and_then :: "'a run \<Rightarrow> ('a \<Rightarrow> 'b run) \<Rightarrow> 'b run" where
  "and_then m f =
     (case m of
        (out, Inl e) \<Rightarrow> (out, Inl e)
      | (out, Inr x) \<Rightarrow> (case f x of (out', r) \<Rightarrow> (out @ out', r)))"

definition printed :: "'a run \<Rightarrow> string list" where
  "printed m = fst m"

definition outcome :: "'a run \<Rightarrow> error + 'a" where
  "outcome m = snd m"

section \<open>Arrays\<close>

text \<open>
  The values of the arrays are the finite floating-point numbers, read as the real numbers
  they denote.  The module never rounds: it compares values, takes maxima and minima, and
  subtracts the integers 0 and 1 from 1.

  A two-dimensional numpy array keeps its column count also when it has no row.
\<close>

record array2 =
  ncols :: nat
  rows :: "real list list"

definition nrows :: "array2 \<Rightarrow> nat" where
  "nrows a = length (rows a)"

definition shape :: "array2 \<Rightarrow> nat \<times> nat" where
  "shape a = (nrows a, ncols a)"

definition well_shaped :: "array2 \<Rightarrow> bool" where
  "well_shaped a = list_all (\<lambda>r. length r = ncols a) (rows a)"

text \<open>\<^verbatim>\<open>np.zeros((n, w))\<close> and \<^verbatim>\<open>np.ones((n, w))\<close>.\<close>

definition np_zeros :: "nat \<Rightarrow> nat \<Rightarrow> array2" where
  "np_zeros n w = \<lparr>ncols = w, rows = replicate n (replicate w 0)\<rparr>"

definition np_ones :: "nat \<Rightarrow> nat \<Rightarrow> array2" where
  "np_ones n w = \<lparr>ncols = w, rows = replicate n (replicate w 1)\<rparr>"

section \<open>The files of a data root\<close>

text \<open>
  A parameter file holds a sequence of numbers, a list file holds text.  \<open>masked_fill\<close> is
  the number that numpy leaves at a position of a masked reduction where every entry was
  masked out (its default fill value); no property below depends on which number it is.
\<close>

record env =
  dat_files :: "string \<Rightarrow> real list option"
  text_files :: "string \<Rightarrow> string option"
  masked_fill :: real

text \<open>
  Modelled from the spec: \<^verbatim>\<open>tfglib.construct_table.parse_file\<close> is not among the sources.
  The spec gives its contract: \<^verbatim>\<open>parse(width, path) -> frames x width numeric array\<close>,
  failing if the file size is not a multiple of \<^verbatim>\<open>width\<close>.  A file that does not exist
  cannot be read.
\<close>

definition chunks :: "nat \<Rightarrow> 'a list \<Rightarrow> 'a list list" where
  "chunks w xs = map (\<lambda>i. take w (drop (i * w) xs)) [0..<length xs div w]"

definition parse_file :: "env \<Rightarrow> nat \<Rightarrow> string \<Rightarrow> array2 run" where
  "parse_file e w path =
     (case dat_files e path of
        None \<Rightarrow> raise IOError
      | Some xs \<Rightarrow>
          if length xs mod w \<noteq> 0 then raise ValueError
          else ret \<lparr>ncols = w, rows = chunks w xs\<rparr>)"

section \<open>The path check\<close>

text \<open>
  \<^verbatim>\<open>
  try:
      assert data_dir[-1] == '/'
  except AssertionError:
      print(msg)
  \<close>
  Only the assertion's failure is caught.  Indexing the empty string raises IndexError,
  which the handler lets through.  \<^verbatim>\<open>find_longest_sequence\<close> writes the index as
  \<^verbatim>\<open>len(data_dir) - 1\<close>, which is \<^verbatim>\<open>-1\<close> for the empty string.
\<close>

definition check_ends_in_slash :: "string \<Rightarrow> string \<Rightarrow> unit run" where
  "check_ends_in_slash dir msg =
     (if dir = [] then raise IndexError
      else if last dir = CHR ''/'' then ret ()
      else print msg)"

definition msg_data_dir :: string where
  "msg_data_dir = ''Please, make sure the data directory string ends with a '/'' @ [CHR 0x27]"

definition msg_source_dir :: string where
  "msg_source_dir = ''Please make sure the source data directory string ends with a '/'' @ [CHR 0x27]"

definition msg_target_dir :: string where
  "msg_target_dir = ''Please make sure the target data directory string ends with a '/'' @ [CHR 0x27]"

section \<open>The sequence scanner\<close>

text \<open>
  \<^verbatim>\<open>find_longest_sequence\<close>: the two nested loops carry \<^verbatim>\<open>longest_sequence\<close>.
\<close>

definition lf0_path :: "string \<Rightarrow> string \<Rightarrow> string \<Rightarrow> string" where
  "lf0_path data_dir speaker basename =
     data_dir @ ''vocoded_s2s/'' @ speaker @ ''/'' @ basename @ ''.'' @ ''lf0'' @ ''.dat''"

fun scan_basenames :: "env \<Rightarrow> string \<Rightarrow> string \<Rightarrow> string list \<Rightarrow> nat \<Rightarrow> nat run" where
  "scan_basenames e data_dir speaker [] longest_sequence = ret longest_sequence"
| "scan_basenames e data_dir speaker (basename # bs) longest_sequence =
     and_then (parse_file e 1 (lf0_path data_dir speaker basename)) (\<lambda>params.
       scan_basenames e data_dir speaker bs
         (if nrows params > longest_sequence then nrows params else longest_sequence))"

fun scan_speakers :: "env \<Rightarrow> string \<Rightarrow> string list \<Rightarrow> string list \<Rightarrow> nat \<Rightarrow> nat run" where
  "scan_speakers e data_dir [] basenames_list longest_sequence = ret longest_sequence"
| "scan_speakers e data_dir (speaker # ss) basenames_list longest_sequence =
     and_then (scan_basenames e data_dir speaker basenames_list longest_sequence)
       (\<lambda>longest. scan_speakers e data_dir ss basenames_list longest)"

definition find_longest_sequence :: "env \<Rightarrow> string \<Rightarrow> string list \<Rightarrow> string list \<Rightarrow> nat run" where
  "find_longest_sequence e data_dir speakers_list basenames_list =
     and_then (check_ends_in_slash data_dir msg_data_dir) (\<lambda>_.
       scan_speakers e data_dir speakers_list basenames_list 0)"

section \<open>Library calls\<close>

text \<open>\<^verbatim>\<open>assert cond\<close>.\<close>

definition py_assert :: "bool \<Rightarrow> unit run" where
  "py_assert cond = (if cond then ret () else raise AssertionError)"

text \<open>
  \<^verbatim>\<open>np.zeros((k, w))\<close> and \<^verbatim>\<open>np.ones((k, w))\<close> where \<^verbatim>\<open>k\<close> is a difference of Python
  integers: numpy refuses a negative dimension with ValueError.
\<close>

definition np_zeros_int :: "int \<Rightarrow> nat \<Rightarrow> array2 run" where
  "np_zeros_int k w = (if k < 0 then raise ValueError else ret (np_zeros (nat k) w))"

text \<open>\<^verbatim>\<open>np.concatenate((a, b))\<close>, along the rows: the column counts must agree.\<close>

definition np_concatenate0 :: "array2 \<Rightarrow> array2 \<Rightarrow> array2 run" where
  "np_concatenate0 a b =
     (if ncols a = ncols b then ret \<lparr>ncols = ncols a, rows = rows a @ rows b\<rparr>
      else raise ValueError)"

text \<open>\<^verbatim>\<open>np.concatenate(arrays, axis=1)\<close>, along the columns: the row counts must agree.\<close>

definition np_concatenate1 :: "array2 list \<Rightarrow> array2 run" where
  "np_concatenate1 arrays =
     (case arrays of
        [] \<Rightarrow> raise ValueError
      | a # _ \<Rightarrow>
          if list_all (\<lambda>b. nrows b = nrows a) arrays
          then ret \<lparr>ncols = sum_list (map ncols arrays),
                    rows = map (\<lambda>i. concat (map (\<lambda>b. rows b ! i) arrays)) [0..<nrows a]\<rparr>
          else raise ValueError)"

text \<open>
  \<^verbatim>\<open>to_categorical(y, nb_classes)\<close> of Keras 1: a row of \<^verbatim>\<open>nb_classes\<close> zeros for each
  entry of \<^verbatim>\<open>y\<close>, with a one at the entry's position, which must be a column of the row.
\<close>

definition one_hot :: "nat \<Rightarrow> nat \<Rightarrow> real list" where
  "one_hot nb_classes c = (replicate nb_classes 0)[c := 1]"

definition to_categorical :: "nat list \<Rightarrow> nat \<Rightarrow> array2 run" where
  "to_categorical y nb_classes =
     (if list_all (\<lambda>c. c < nb_classes) y
      then ret \<lparr>ncols = nb_classes, rows = map (one_hot nb_classes) y\<rparr>
      else raise IndexError)"

text \<open>
  Modelled from the spec: \<^verbatim>\<open>tfglib.utils.kronecker_delta\<close> is not among the sources.  The
  spec describes the voiced flag as 1 minus an indicator that the raw-voicing value equals
  exactly zero, so \<^verbatim>\<open>kronecker_delta\<close> is that indicator.
\<close>

definition kronecker_delta :: "real \<Rightarrow> int" where
  "kronecker_delta x = (if x = 0 then 1 else 0)"

text \<open>
  Modelled from the spec: \<^verbatim>\<open>tfglib.zero_pad.zero_pad_params\<close> is not among the sources.
  The spec: extend a sequence to a target length by inserting zero-valued rows at one end;
  source padding is prepended, target padding is appended.  A sequence longer than the
  target length cannot be extended to it: the number of rows to insert would be negative,
  which numpy refuses.
\<close>

datatype pad_mode = Src | Trg

definition zero_pad_params :: "nat \<Rightarrow> pad_mode \<Rightarrow> array2 \<Rightarrow> array2 run" where
  "zero_pad_params max_length mode params =
     and_then (np_zeros_int (int max_length - int (nrows params)) (ncols params)) (\<lambda>padding.
       case mode of
         Src \<Rightarrow> ret \<lparr>ncols = ncols params, rows = rows padding @ rows params\<rparr>
       | Trg \<Rightarrow> ret \<lparr>ncols = ncols params, rows = rows params @ rows padding\<rparr>)"

section \<open>The pair builder\<close>

text \<open>
  The voiced flag array: row \<^verbatim>\<open>index\<close> of an array of the voicing stream's shape receives
  \<^verbatim>\<open>1 - kronecker_delta(vf[index])\<close>.  The voicing stream has one column.
\<close>

definition voiced_flags :: "array2 \<Rightarrow> array2" where
  "voiced_flags vf =
     \<lparr>ncols = ncols vf,
      rows = map (map (\<lambda>v. real_of_int (1 - kronecker_delta v))) (rows vf)\<rparr>"

text \<open>
  \<^verbatim>\<open>
  eos_flag = np.zeros(vf.shape)
  eos_flag[-1, :] = 1
  \<close>
  An array without rows has no last row.
\<close>

definition eos_flag :: "nat \<times> nat \<Rightarrow> array2 run" where
  "eos_flag sh =
     (if fst sh = 0 then raise IndexError
      else ret \<lparr>ncols = snd sh,
                rows = (replicate (fst sh) (replicate (snd sh) 0))
                         [fst sh - 1 := replicate (snd sh) 1]\<rparr>)"

definition seq2seq_build_file_table ::
  "env \<Rightarrow> string \<Rightarrow> nat \<Rightarrow> string \<Rightarrow> nat \<Rightarrow> string \<Rightarrow> nat
     \<Rightarrow> (array2 \<times> array2 \<times> array2 \<times> array2) run" where
  "seq2seq_build_file_table e source_dir src_index target_dir trg_index basename longest_seq =
     and_then (check_ends_in_slash source_dir msg_source_dir) (\<lambda>_.
     and_then (check_ends_in_slash target_dir msg_target_dir) (\<lambda>_.
     and_then (parse_file e 40 (source_dir @ basename @ ''.'' @ ''mcp'' @ ''.dat'')) (\<lambda>source_mcp.
     and_then (parse_file e 1 (source_dir @ basename @ ''.'' @ ''lf0'' @ ''.dat'')) (\<lambda>source_f0.
     and_then (parse_file e 1 (source_dir @ basename @ ''.'' @ ''lf0'' @ ''.i.dat'')) (\<lambda>source_f0_i.
     and_then (parse_file e 1 (source_dir @ basename @ ''.'' @ ''vf'' @ ''.dat'')) (\<lambda>source_vf.
     and_then (parse_file e 1 (source_dir @ basename @ ''.'' @ ''vf'' @ ''.i.dat'')) (\<lambda>source_vf_i.
     and_then (parse_file e 40 (target_dir @ basename @ ''.'' @ ''mcp'' @ ''.dat'')) (\<lambda>target_mcp.
     and_then (parse_file e 1 (target_dir @ basename @ ''.'' @ ''lf0'' @ ''.dat'')) (\<lambda>target_f0.
     and_then (parse_file e 1 (target_dir @ basename @ ''.'' @ ''lf0'' @ ''.i.dat'')) (\<lambda>target_f0_i.
     and_then (parse_file e 1 (target_dir @ basename @ ''.'' @ ''vf'' @ ''.dat'')) (\<lambda>target_vf.
     and_then (parse_file e 1 (target_dir @ basename @ ''.'' @ ''vf'' @ ''.i.dat'')) (\<lambda>target_vf_i.
     and_then (py_assert (shape source_vf = shape source_f0)) (\<lambda>_.
     and_then (ret (voiced_flags source_vf)) (\<lambda>source_voiced.
     and_then (py_assert (shape target_vf = shape target_f0)) (\<lambda>_.
     and_then (ret (voiced_flags target_vf)) (\<lambda>target_voiced.
     and_then (eos_flag (shape source_vf)) (\<lambda>src_eos_flag.
     and_then (eos_flag (shape target_vf)) (\<lambda>trg_eos_flag.
     and_then (to_categorical (replicate (nrows source_vf) src_index) 10) (\<lambda>src_spk_index.
     and_then (to_categorical (replicate (nrows target_vf) trg_index) 10) (\<lambda>trg_spk_index.
     and_then (np_zeros_int (int longest_seq - int (nrows source_mcp)) 1) (\<lambda>source_padding.
     and_then (np_concatenate0 source_padding (np_ones (nrows source_mcp) 1)) (\<lambda>source_mask.
     and_then (np_zeros_int (int longest_seq - int (nrows target_mcp)) 1) (\<lambda>target_padding.
     and_then (np_concatenate0 (np_ones (nrows target_mcp) 1) target_padding) (\<lambda>target_mask.
     and_then (py_assert (shape source_mask = shape target_mask)) (\<lambda>_.
     and_then (zero_pad_params longest_seq Src source_mcp) (\<lambda>s1.
     and_then (zero_pad_params longest_seq Src source_f0_i) (\<lambda>s2.
     and_then (zero_pad_params longest_seq Src source_vf_i) (\<lambda>s3.
     and_then (zero_pad_params longest_seq Src source_voiced) (\<lambda>s4.
     and_then (zero_pad_params longest_seq Src src_eos_flag) (\<lambda>s5.
     and_then (zero_pad_params longest_seq Src src_spk_index) (\<lambda>s6.
     and_then (zero_pad_params longest_seq Src trg_spk_index) (\<lambda>s7.
     and_then (np_concatenate1 [s1, s2, s3, s4, s5, s6, s7]) (\<lambda>source_params.
     and_then (zero_pad_params longest_seq Trg target_mcp) (\<lambda>t1.
     and_then (zero_pad_params longest_seq Trg target_f0_i) (\<lambda>t2.
     and_then (zero_pad_params longest_seq Trg target_vf_i) (\<lambda>t3.
     and_then (zero_pad_params longest_seq Trg target_voiced) (\<lambda>t4.
     and_then (zero_pad_params longest_seq Trg trg_eos_flag) (\<lambda>t5.
     and_then (np_concatenate1 [t1, t2, t3, t4, t5]) (\<lambda>target_params.
       ret (source_params, source_mask, target_params, target_mask)
     )))))))))))))))))))))))))))))))))))))))"

section \<open>The corpus assembler\<close>

subsection \<open>List files\<close>

text \<open>
  \<^verbatim>\<open>open(path, 'r').readlines()\<close> cuts the text after each line feed and keeps the line
  feed with its line; \<^verbatim>\<open>line.split('\n')[0]\<close> is the line up to its first line feed.
\<close>

definition line_feed :: char where
  "line_feed = CHR 0x0A"

definition readlines :: "string \<Rightarrow> string list" where
  "readlines s =
     foldr (\<lambda>c ls. if c = line_feed then [c] # ls
                     else (case ls of [] \<Rightarrow> [[c]] | l # ls' \<Rightarrow> (c # l) # ls')) s []"

definition read_list_file :: "env \<Rightarrow> string \<Rightarrow> string list run" where
  "read_list_file e path =
     (case text_files e path of
        None \<Rightarrow> raise IOError
      | Some s \<Rightarrow> ret (map (takeWhile (\<lambda>c. c \<noteq> line_feed)) (readlines s)))"

subsection \<open>Masked maximum and minimum\<close>

text \<open>\<^verbatim>\<open>a[:, 0:k]\<close>.\<close>

definition first_columns :: "nat \<Rightarrow> array2 \<Rightarrow> array2" where
  "first_columns k a = \<lparr>ncols = min k (ncols a), rows = map (take k) (rows a)\<rparr>"

text \<open>\<^verbatim>\<open>np.repeat(a, k, axis=1)\<close>: every entry is repeated \<^verbatim>\<open>k\<close> times in its row.\<close>

definition np_repeat1 :: "array2 \<Rightarrow> nat \<Rightarrow> array2" where
  "np_repeat1 a k = \<lparr>ncols = k * ncols a, rows = map (\<lambda>r. concat (map (replicate k) r)) (rows a)\<rparr>"

text \<open>\<^verbatim>\<open>1 - a\<close>.\<close>

definition one_minus :: "array2 \<Rightarrow> array2" where
  "one_minus a = \<lparr>ncols = ncols a, rows = map (map (\<lambda>v. 1 - v)) (rows a)\<rparr>"

text \<open>
  A masked array is its data with a mask of the same shape; an entry is masked out where
  the mask is not zero.  \<^verbatim>\<open>np.ma.max(m, axis=0)\<close> and \<^verbatim>\<open>np.ma.min(m, axis=0)\<close> reduce
  each column over its entries that are not masked out.  Where a column has none, the
  data of the result is numpy's fill value, which \<^verbatim>\<open>np.maximum\<close> and \<^verbatim>\<open>np.minimum\<close> then
  read and the assignment to a row of the accumulator stores.
\<close>

definition ma_column :: "array2 \<Rightarrow> array2 \<Rightarrow> nat \<Rightarrow> real list" where
  "ma_column data msk j =
     map (\<lambda>(r, m). r ! j) (filter (\<lambda>(r, m). m ! j = 0) (zip (rows data) (rows msk)))"

definition ma_reduce :: "(real \<Rightarrow> real \<Rightarrow> real) \<Rightarrow> real \<Rightarrow> array2 \<Rightarrow> array2 \<Rightarrow> real list" where
  "ma_reduce f fill data msk =
     map (\<lambda>j. case ma_column data msk j of [] \<Rightarrow> fill | v # vs \<Rightarrow> fold f vs v)
       [0..<ncols data]"

definition ma_max :: "real \<Rightarrow> array2 \<Rightarrow> array2 \<Rightarrow> real list" where
  "ma_max fill data msk = ma_reduce max fill data msk"

definition ma_min :: "real \<Rightarrow> array2 \<Rightarrow> array2 \<Rightarrow> real list" where
  "ma_min fill data msk = ma_reduce min fill data msk"

subsection \<open>The accumulators\<close>

text \<open>The double that the literal \<^verbatim>\<open>1e+50\<close> denotes.\<close>

definition sentinel :: real where
  "sentinel = 100000000000000007629769841091887003294964970946560"

record acc =
  src_datatable :: "array2 list"
  trg_datatable :: "array2 list"
  src_masks :: "array2 list"
  trg_masks :: "array2 list"
  spk_max :: "real list list"
  spk_min :: "real list list"

definition initial_acc :: acc where
  "initial_acc =
     \<lparr>src_datatable = [], trg_datatable = [], src_masks = [], trg_masks = [],
      spk_max = replicate 10 (replicate 42 0),
      spk_min = replicate 10 (replicate 42 sentinel)\<rparr>"

text \<open>\<^verbatim>\<open>a[i, :]\<close> on an array of nested rows: the row must exist.\<close>

definition get_row :: "real list list \<Rightarrow> nat \<Rightarrow> real list run" where
  "get_row a i = (if i < length a then ret (a ! i) else raise IndexError)"

text \<open>The body of the innermost loop, for one source speaker, target speaker and basename.\<close>

definition process_pair ::
  "env \<Rightarrow> string \<Rightarrow> nat \<Rightarrow> nat \<times> string \<Rightarrow> nat \<times> string \<Rightarrow> string \<Rightarrow> acc \<Rightarrow> acc run" where
  "process_pair e data_dir longest_seq src trg basename a =
     (case src of (src_index, src_spk) \<Rightarrow>
      case trg of (trg_index, trg_spk) \<Rightarrow>
     and_then (print (src_spk @ ''->'' @ trg_spk @ '' '' @ basename)) (\<lambda>_.
     and_then (seq2seq_build_file_table e
                 (data_dir @ ''vocoded_s2s/'' @ src_spk @ ''/'') src_index
                 (data_dir @ ''vocoded_s2s/'' @ trg_spk @ ''/'') trg_index
                 basename longest_seq) (\<lambda>(aux_src_params, aux_src_mask, aux_trg_params, aux_trg_mask).
     let masked_data = first_columns 42 aux_src_params;
         masked_mask = one_minus (np_repeat1 aux_src_mask 42) in
     and_then (get_row (spk_max a) src_index) (\<lambda>max_row.
     let spk_max' = (spk_max a)[src_index :=
                       map2 max max_row (ma_max (masked_fill e) masked_data masked_mask)] in
     and_then (get_row (spk_min a) src_index) (\<lambda>min_row.
     let spk_min' = (spk_min a)[src_index :=
                       map2 min min_row (ma_min (masked_fill e) masked_data masked_mask)] in
     ret \<lparr>src_datatable = src_datatable a @ [aux_src_params],
          trg_datatable = trg_datatable a @ [aux_trg_params],
          src_masks = src_masks a @ [aux_src_mask],
          trg_masks = trg_masks a @ [aux_trg_mask],
          spk_max = spk_max',
          spk_min = spk_min'\<rparr>)))))"

fun loop_basenames ::
  "env \<Rightarrow> string \<Rightarrow> nat \<Rightarrow> nat \<times> string \<Rightarrow> nat \<times> string \<Rightarrow> string list \<Rightarrow> acc \<Rightarrow> acc run" where
  "loop_basenames e data_dir longest_seq src trg [] a = ret a"
| "loop_basenames e data_dir longest_seq src trg (basename # bs) a =
     and_then (process_pair e data_dir longest_seq src trg basename a)
       (\<lambda>a'. loop_basenames e data_dir longest_seq src trg bs a')"

fun loop_targets ::
  "env \<Rightarrow> string \<Rightarrow> nat \<Rightarrow> nat \<times> string \<Rightarrow> (nat \<times> string) list \<Rightarrow> string list \<Rightarrow> acc
     \<Rightarrow> acc run" where
  "loop_targets e data_dir longest_seq src [] basenames a = ret a"
| "loop_targets e data_dir longest_seq src (trg # ts) basenames a =
     and_then (loop_basenames e data_dir longest_seq src trg basenames a)
       (\<lambda>a'. loop_targets e data_dir longest_seq src ts basenames a')"

fun loop_sources ::
  "env \<Rightarrow> string \<Rightarrow> nat \<Rightarrow> (nat \<times> string) list \<Rightarrow> (nat \<times> string) list \<Rightarrow> string list \<Rightarrow> acc
     \<Rightarrow> acc run" where
  "loop_sources e data_dir longest_seq [] targets basenames a = ret a"
| "loop_sources e data_dir longest_seq (src # ss) targets basenames a =
     and_then (loop_targets e data_dir longest_seq src targets basenames a)
       (\<lambda>a'. loop_sources e data_dir longest_seq ss targets basenames a')"

text \<open>\<^verbatim>\<open>enumerate(xs)\<close>.\<close>

definition enumerate_from0 :: "'a list \<Rightarrow> (nat \<times> 'a) list" where
  "enumerate_from0 xs = zip [0..<length xs] xs"

subsection \<open>Stacking\<close>

text \<open>An array of any number of dimensions: its shape and its entries in row-major order.\<close>

datatype ndarray = NDArray (dims: "nat list") (cells: "real list")

text \<open>
  \<^verbatim>\<open>np.array(arrays)\<close> of a list of two-dimensional arrays.  The empty list gives the
  one-dimensional array without entries.  The pair builder returns arrays of one shape,
  which stack into three dimensions; arrays of different shapes do not stack.
\<close>

definition np_array :: "array2 list \<Rightarrow> ndarray run" where
  "np_array arrays =
     (case arrays of
        [] \<Rightarrow> ret (NDArray [0] [])
      | a # _ \<Rightarrow>
          if list_all (\<lambda>b. shape b = shape a) arrays
          then ret (NDArray [length arrays, nrows a, ncols a] (concat (concat (map rows arrays))))
          else raise ValueError)"

text \<open>
  \<^verbatim>\<open>a.reshape(-1, k)\<close>: the unknown dimension is the number of entries divided by \<^verbatim>\<open>k\<close>,
  which must divide it and must not be zero.
\<close>

definition reshape_rows :: "ndarray \<Rightarrow> nat \<Rightarrow> ndarray run" where
  "reshape_rows a k =
     (if k = 0 \<or> length (cells a) mod k \<noteq> 0 then raise ValueError
      else ret (NDArray [length (cells a) div k, k] (cells a)))"

type_synonym datatable =
  "ndarray \<times> ndarray \<times> ndarray \<times> ndarray \<times> nat \<times> real list list \<times> real list list"

definition seq2seq_construct_datatable :: "env \<Rightarrow> string \<Rightarrow> string \<Rightarrow> string \<Rightarrow> datatable run" where
  "seq2seq_construct_datatable e data_dir speakers_file basenames_file =
     and_then (check_ends_in_slash data_dir msg_data_dir) (\<lambda>_.
     and_then (read_list_file e (data_dir @ speakers_file)) (\<lambda>speakers.
     and_then (read_list_file e (data_dir @ basenames_file)) (\<lambda>basenames.
     and_then (find_longest_sequence e data_dir speakers basenames) (\<lambda>longest_seq.
     and_then (loop_sources e data_dir longest_seq (enumerate_from0 speakers)
                 (enumerate_from0 speakers) basenames initial_acc) (\<lambda>a.
     and_then (np_array (src_datatable a)) (\<lambda>r1.
     and_then (np_array (src_masks a)) (\<lambda>m2.
     and_then (reshape_rows m2 longest_seq) (\<lambda>r2.
     and_then (np_array (trg_datatable a)) (\<lambda>r3.
     and_then (np_array (trg_masks a)) (\<lambda>m4.
     and_then (reshape_rows m4 longest_seq) (\<lambda>r4.
       ret (r1, r2, r3, r4, longest_seq, spk_max a, spk_min a))))))))))))"

section \<open>The datatable store\<close>

text \<open>
  An HDF5 file holds named attributes and named datasets.  h5py stores an array of doubles
  and an integer as they are and reads them back as they were stored; the store maps the
  path of each file to its content.
\<close>

datatype attr = AttrInt int | AttrMatrix "real list list"

record h5file =
  attrs :: "string \<Rightarrow> attr option"
  datasets :: "string \<Rightarrow> ndarray option"

type_synonym h5store = "string \<Rightarrow> h5file option"

definition attrs_create :: "string \<Rightarrow> attr \<Rightarrow> h5file \<Rightarrow> h5file" where
  "attrs_create name v f = f\<lparr>attrs := (attrs f)(name \<mapsto> v)\<rparr>"

definition create_dataset :: "string \<times> ndarray \<Rightarrow> h5file \<Rightarrow> h5file" where
  "create_dataset item f = f\<lparr>datasets := (datasets f)(fst item \<mapsto> snd item)\<rparr>"

text \<open>
  \<^verbatim>\<open>seq2seq_save_datatable\<close>.  The check that the output name is a string holds for every
  string.  Opening with \<^verbatim>\<open>'w'\<close> starts from an empty file.  The dictionary's four names
  differ, so the order in which its items are written does not matter.
\<close>

definition seq2seq_save_datatable ::
  "env \<Rightarrow> h5store \<Rightarrow> string \<Rightarrow> string \<Rightarrow> (h5store \<times> datatable) run" where
  "seq2seq_save_datatable e store data_dir datatable_out_file =
     and_then (check_ends_in_slash data_dir msg_data_dir) (\<lambda>_.
     and_then (seq2seq_construct_datatable e data_dir ''speakers.list'' ''seq2seq_basenames.list'')
       (\<lambda>(source_datatable, source_masks, target_datatable, target_masks,
           max_seq_length, speakers_max, speakers_min).
     let data_dict = [(''src_datatable'', source_datatable),
                      (''trg_datatable'', target_datatable),
                      (''src_mask'', source_masks),
                      (''trg_mask'', target_masks)];
         f = fold create_dataset data_dict
               (attrs_create ''speakers_min'' (AttrMatrix speakers_min)
               (attrs_create ''speakers_max'' (AttrMatrix speakers_max)
               (attrs_create ''max_seq_length'' (AttrInt (int max_seq_length))
                  \<lparr>attrs = Map.empty, datasets = Map.empty\<rparr>)))
     in ret (store(datatable_out_file @ ''.h5'' \<mapsto> f),
             (source_datatable, source_masks, target_datatable, target_masks,
              max_seq_length, speakers_max, speakers_min))))"

text \<open>\<^verbatim>\<open>file[name]\<close>: the dataset must exist.\<close>

definition h5_dataset :: "h5file \<Rightarrow> string \<Rightarrow> ndarray run" where
  "h5_dataset f name = (case datasets f name of None \<Rightarrow> raise KeyError | Some d \<Rightarrow> ret d)"

text \<open>
  \<^verbatim>\<open>dataset[:, :]\<close>: the whole dataset, which must have at least two dimensions; h5py
  refuses more indices than dimensions with TypeError.
\<close>

definition slice_all2 :: "ndarray \<Rightarrow> ndarray run" where
  "slice_all2 d = (if length (dims d) < 2 then raise TypeError else ret d)"

type_synonym loaded =
  "ndarray \<times> ndarray \<times> ndarray \<times> ndarray \<times> attr option \<times> attr option \<times> attr option"

text \<open>
  \<^verbatim>\<open>seq2seq2_load_datatable\<close>.  \<^verbatim>\<open>file.attrs.get(name)\<close> is \<^verbatim>\<open>None\<close> for an attribute
  that the file does not have.
\<close>

definition seq2seq2_load_datatable :: "h5store \<Rightarrow> string \<Rightarrow> loaded run" where
  "seq2seq2_load_datatable store datatable_file =
     (case store datatable_file of
        None \<Rightarrow> raise IOError
      | Some file \<Rightarrow>
          and_then (h5_dataset file ''src_datatable'') (\<lambda>d1.
          and_then (slice_all2 d1) (\<lambda>source_datatable.
          and_then (h5_dataset file ''trg_datatable'') (\<lambda>d2.
          and_then (slice_all2 d2) (\<lambda>target_datatable.
          and_then (h5_dataset file ''src_mask'') (\<lambda>d3.
          and_then (slice_all2 d3) (\<lambda>source_masks.
          and_then (h5_dataset file ''trg_mask'') (\<lambda>d4.
          and_then (slice_all2 d4) (\<lambda>target_masks.
            ret (source_datatable, source_masks, target_datatable, target_masks,
                 attrs file ''max_seq_length'',
                 attrs file ''speakers_max'',
                 attrs file ''speakers_min''))))))))))"

text \<open>The 7-tuple of the assembler as the values that loading returns.\<close>

definition as_loaded :: "datatable \<Rightarrow> loaded" where
  "as_loaded x =
     (case x of (source_datatable, source_masks, target_datatable, target_masks,
                 max_seq_length, speakers_max, speakers_min) \<Rightarrow>
        (source_datatable, source_masks, target_datatable, target_masks,
         Some (AttrInt (int max_seq_length)),
         Some (AttrMatrix speakers_max),
         Some (AttrMatrix speakers_min)))"

section \<open>Notions of the specification\<close>

text \<open>
  The frame count of the log-F0 stream of a speaker and basename: the number of rows of
  the one-column stream in the speaker's \<^verbatim>\<open>lf0\<close> file (0 when it cannot be read).
\<close>

definition lf0_frame_count :: "env \<Rightarrow> string \<Rightarrow> string \<Rightarrow> string \<Rightarrow> nat" where
  "lf0_frame_count e data_dir speaker basename =
     (case outcome (parse_file e 1 (lf0_path data_dir speaker basename)) of
        Inl _ \<Rightarrow> 0
      | Inr params \<Rightarrow> nrows params)"

text \<open>
  The streams of one side of a pair.  A file that can be parsed with a width is
  \<open>readable\<close>; \<open>stream\<close> is the array that parsing it gives.
\<close>

definition readable :: "env \<Rightarrow> nat \<Rightarrow> string \<Rightarrow> bool" where
  "readable e w path = (case dat_files e path of None \<Rightarrow> False | Some xs \<Rightarrow> length xs mod w = 0)"

definition stream :: "env \<Rightarrow> nat \<Rightarrow> string \<Rightarrow> array2" where
  "stream e w path =
     \<lparr>ncols = w, rows = (case dat_files e path of None \<Rightarrow> [] | Some xs \<Rightarrow> chunks w xs)\<rparr>"

text \<open>
  Zero-padding to \<open>n\<close> rows, in front (the source convention) and at the back (the target
  convention); the column-wise concatenation of arrays of \<open>n\<close> rows; the end-of-sequence
  column of a sequence of \<open>n\<close> frames; the one-hot rows of a speaker index.
\<close>

definition front_pad :: "nat \<Rightarrow> array2 \<Rightarrow> array2" where
  "front_pad n a =
     \<lparr>ncols = ncols a, rows = replicate (n - nrows a) (replicate (ncols a) 0) @ rows a\<rparr>"

definition back_pad :: "nat \<Rightarrow> array2 \<Rightarrow> array2" where
  "back_pad n a =
     \<lparr>ncols = ncols a, rows = rows a @ replicate (n - nrows a) (replicate (ncols a) 0)\<rparr>"

definition hcat :: "nat \<Rightarrow> array2 list \<Rightarrow> array2" where
  "hcat n arrays =
     \<lparr>ncols = sum_list (map ncols arrays),
      rows = map (\<lambda>i. concat (map (\<lambda>a. rows a ! i) arrays)) [0..<n]\<rparr>"

definition eos_column :: "nat \<Rightarrow> array2" where
  "eos_column n = \<lparr>ncols = 1, rows = replicate (n - 1) [0] @ [[1]]\<rparr>"

definition speaker_rows :: "nat \<Rightarrow> nat \<Rightarrow> array2" where
  "speaker_rows n index = \<lparr>ncols = 10, rows = replicate n (one_hot 10 index)\<rparr>"

record side =
  mcp :: array2
  f0 :: array2
  f0_i :: array2
  vf :: array2
  vf_i :: array2

definition side_streams :: "env \<Rightarrow> string \<Rightarrow> string \<Rightarrow> side" where
  "side_streams e dir basename =
     \<lparr>mcp = stream e 40 (dir @ basename @ ''.'' @ ''mcp'' @ ''.dat''),
      f0 = stream e 1 (dir @ basename @ ''.'' @ ''lf0'' @ ''.dat''),
      f0_i = stream e 1 (dir @ basename @ ''.'' @ ''lf0'' @ ''.i.dat''),
      vf = stream e 1 (dir @ basename @ ''.'' @ ''vf'' @ ''.dat''),
      vf_i = stream e 1 (dir @ basename @ ''.'' @ ''vf'' @ ''.i.dat'')\<rparr>"

definition side_readable :: "env \<Rightarrow> string \<Rightarrow> string \<Rightarrow> bool" where
  "side_readable e dir basename \<longleftrightarrow>
     readable e 40 (dir @ basename @ ''.'' @ ''mcp'' @ ''.dat'') \<and>
     readable e 1 (dir @ basename @ ''.'' @ ''lf0'' @ ''.dat'') \<and>
     readable e 1 (dir @ basename @ ''.'' @ ''lf0'' @ ''.i.dat'') \<and>
     readable e 1 (dir @ basename @ ''.'' @ ''vf'' @ ''.dat'') \<and>
     readable e 1 (dir @ basename @ ''.'' @ ''vf'' @ ''.i.dat'')"

definition side_fits :: "side \<Rightarrow> nat \<Rightarrow> nat \<Rightarrow> bool" where
  "side_fits s index n \<longleftrightarrow>
     nrows (vf s) = nrows (f0 s) \<and> 0 < nrows (vf s) \<and> index < 10 \<and>
     nrows (mcp s) \<le> n \<and> nrows (f0_i s) \<le> n \<and> nrows (vf_i s) \<le> n \<and> nrows (vf s) \<le> n"

definition build_returns ::
  "env \<Rightarrow> string \<Rightarrow> nat \<Rightarrow> string \<Rightarrow> nat \<Rightarrow> string \<Rightarrow> nat \<Rightarrow> bool" where
  "build_returns e source_dir src_index target_dir trg_index basename longest_seq \<longleftrightarrow>
     source_dir \<noteq> [] \<and> target_dir \<noteq> [] \<and>
     side_readable e source_dir basename \<and> side_readable e target_dir basename \<and>
     side_fits (side_streams e source_dir basename) src_index longest_seq \<and>
     side_fits (side_streams e target_dir basename) trg_index longest_seq"

definition source_features :: "side \<Rightarrow> side \<Rightarrow> nat \<Rightarrow> nat \<Rightarrow> nat \<Rightarrow> array2" where
  "source_features s t src_index trg_index n =
     hcat n [front_pad n (mcp s), front_pad n (f0_i s), front_pad n (vf_i s),
             front_pad n (voiced_flags (vf s)), front_pad n (eos_column (nrows (vf s))),
             front_pad n (speaker_rows (nrows (vf s)) src_index),
             front_pad n (speaker_rows (nrows (vf t)) trg_index)]"

definition target_features :: "side \<Rightarrow> nat \<Rightarrow> array2" where
  "target_features t n =
     hcat n [back_pad n (mcp t), back_pad n (f0_i t), back_pad n (vf_i t),
             back_pad n (voiced_flags (vf t)), back_pad n (eos_column (nrows (vf t)))]"

definition source_mask_of :: "side \<Rightarrow> nat \<Rightarrow> array2" where
  "source_mask_of s n =
     \<lparr>ncols = 1, rows = replicate (n - nrows (mcp s)) [0] @ replicate (nrows (mcp s)) [1]\<rparr>"

definition target_mask_of :: "side \<Rightarrow> nat \<Rightarrow> array2" where
  "target_mask_of t n =
     \<lparr>ncols = 1, rows = replicate (nrows (mcp t)) [1] @ replicate (n - nrows (mcp t)) [0]\<rparr>"

text \<open>The two statistics matrices of a datatable.\<close>

definition speakers_max_of :: "datatable \<Rightarrow> real list list" where
  "speakers_max_of x = fst (snd (snd (snd (snd (snd x)))))"

definition speakers_min_of :: "datatable \<Rightarrow> real list list" where
  "speakers_min_of x = snd (snd (snd (snd (snd (snd x)))))"

section \<open>A small corpus\<close>

text \<open>
  Two speakers and one utterance: speaker \<^verbatim>\<open>a\<close> has two frames, all of whose spectral
  values are negative, and speaker \<^verbatim>\<open>b\<close> has three frames.
\<close>

definition corpus :: env where
  "corpus =
     \<lparr>dat_files = map_of
        [(''d/vocoded_s2s/a/u.mcp.dat'', replicate 40 (- 1) @ replicate 40 (- 2)),
         (''d/vocoded_s2s/a/u.lf0.dat'', [0, 5]),
         (''d/vocoded_s2s/a/u.lf0.i.dat'', [4, 5]),
         (''d/vocoded_s2s/a/u.vf.dat'', [0, 3]),
         (''d/vocoded_s2s/a/u.vf.i.dat'', [2, 3]),
         (''d/vocoded_s2s/b/u.mcp.dat'', replicate 40 1 @ replicate 40 2 @ replicate 40 3),
         (''d/vocoded_s2s/b/u.lf0.dat'', [0, 5, 6]),
         (''d/vocoded_s2s/b/u.lf0.i.dat'', [4, 5, 6]),
         (''d/vocoded_s2s/b/u.vf.dat'', [0, 3, 0]),
         (''d/vocoded_s2s/b/u.vf.i.dat'', [2, 3, 1])],
      text_files = map_of
        [(''d/speakers.list'', ''a'' @ [line_feed] @ ''b'' @ [line_feed]),
         (''d/seq2seq_basenames.list'', ''u'' @ [line_feed])],
      masked_fill = 100000000000000000000\<rparr>"

text \<open>
  Two damaged copies of the corpus: in the first the interpolated log-F0 file of speaker
  \<^verbatim>\<open>a\<close> has one frame where the raw file has two; in the second the raw voicing file of
  speaker \<^verbatim>\<open>a\<close> has one frame where the raw log-F0 file has two.
\<close>

definition corpus_short_interpolated :: env where
  "corpus_short_interpolated =
     corpus\<lparr>dat_files := (dat_files corpus)(''d/vocoded_s2s/a/u.lf0.i.dat'' \<mapsto> [4])\<rparr>"

definition corpus_short_voicing :: env where
  "corpus_short_voicing =
     corpus\<lparr>dat_files := (dat_files corpus)(''d/vocoded_s2s/a/u.vf.dat'' \<mapsto> [0])\<rparr>"

text \<open>The datatable that the assembler returns for the corpus.\<close>

definition corpus_datatable :: datatable where
  "corpus_datatable =
     projr (outcome (seq2seq_construct_datatable corpus ''d/'' ''speakers.list''
                       ''seq2seq_basenames.list''))"

text \<open>The store after saving the corpus to \<^verbatim>\<open>out\<close>, starting without files.\<close>

definition corpus_store :: h5store where
  "corpus_store =
     fst (projr (outcome (seq2seq_save_datatable corpus Map.empty ''d/'' ''out'')))"

section \<open>Properties of the run combinators\<close>

lemma outcome_ret [simp]: "outcome (ret x) = Inr x"
  by (simp add: outcome_def ret_def)

lemma printed_ret [simp]: "printed (ret x) = []"
  by (simp add: printed_def ret_def)

lemma outcome_raise [simp]: "outcome (raise err) = Inl err"
  by (simp add: outcome_def raise_def)

lemma printed_raise [simp]: "printed (raise err) = []"
  by (simp add: printed_def raise_def)

lemma outcome_print [simp]: "outcome (print s) = Inr ()"
  by (simp add: outcome_def print_def)

lemma printed_print [simp]: "printed (print s) = [s]"
  by (simp add: printed_def print_def)

lemma outcome_and_then:
  "outcome (and_then m f) = (case outcome m of Inl err \<Rightarrow> Inl err | Inr x \<Rightarrow> outcome (f x))"
  by (cases m) (auto simp: outcome_def and_then_def split: sum.splits prod.splits)

lemma printed_and_then:
  "printed (and_then m f) =
     (case outcome m of Inl err \<Rightarrow> printed m | Inr x \<Rightarrow> printed m @ printed (f x))"
  by (cases m) (auto simp: outcome_def printed_def and_then_def split: sum.splits prod.splits)

lemma and_then_Inr_iff:
  "outcome (and_then m f) = Inr y \<longleftrightarrow> (\<exists>x. outcome m = Inr x \<and> outcome (f x) = Inr y)"
  by (simp add: outcome_and_then split: sum.splits)

lemma length_chunks [simp]: "length (chunks w xs) = length xs div w"
  by (simp add: chunks_def)

lemma parse_file_Inr_iff:
  "outcome (parse_file e w path) = Inr a \<longleftrightarrow>
     (\<exists>xs. dat_files e path = Some xs \<and> length xs mod w = 0 \<and> a = \<lparr>ncols = w, rows = chunks w xs\<rparr>)"
  by (auto simp: parse_file_def split: option.splits)

section \<open>The sequence scanner returns the longest frame count\<close>

lemma parse_file_1_Some:
  "dat_files e path = Some xs \<Longrightarrow>
     outcome (parse_file e 1 path) = Inr \<lparr>ncols = 1, rows = chunks 1 xs\<rparr>"
  by (simp add: parse_file_def)

lemma parse_file_None:
  "dat_files e path = None \<Longrightarrow> outcome (parse_file e w path) = Inl IOError"
  by (simp add: parse_file_def)

lemma Max_insert_max:
  "finite A \<Longrightarrow> Max (insert (max l c) A) = Max (insert (l::nat) (insert c A))"
  by (cases "A = {}") (auto simp: max.assoc)

lemma Max_insert_Max:
  fixes l :: nat
  assumes "finite A" "finite B"
  shows "Max (insert (Max (insert l A)) B) = Max (insert l (A \<union> B))"
proof -
  have "Max (insert l (A \<union> B)) = Max (insert l A \<union> B)" by simp
  also have "\<dots> = max (Max (insert l A)) (Max (insert (Max (insert l A)) B))"
  proof (cases "B = {}")
    case True
    then show ?thesis by simp
  next
    case False
    have "Max (insert l A \<union> B) = max (Max (insert l A)) (Max B)"
      using assms False by (intro Max_Un) auto
    moreover have "Max (insert (Max (insert l A)) B) = max (Max (insert l A)) (Max B)"
      using assms False by simp
    ultimately show ?thesis by simp
  qed
  also have "\<dots> = Max (insert (Max (insert l A)) B)"
    using assms by (simp add: max_def)
  finally show ?thesis by simp
qed

lemma scan_basenames_Inr_iff:
  "outcome (scan_basenames e d s bs l) = Inr r \<longleftrightarrow>
     (\<forall>b\<in>set bs. dat_files e (lf0_path d s b) \<noteq> None) \<and>
     r = Max (insert l (lf0_frame_count e d s ` set bs))"
proof (induction bs arbitrary: l)
  case Nil
  show ?case by auto
next
  case (Cons b bs)
  show ?case
  proof (cases "dat_files e (lf0_path d s b)")
    case None
    then show ?thesis by (simp add: outcome_and_then parse_file_None)
  next
    case (Some xs)
    let ?a = "\<lparr>ncols = 1, rows = chunks 1 xs\<rparr>"
    have p: "outcome (parse_file e 1 (lf0_path d s b)) = Inr ?a"
      using Some by (rule parse_file_1_Some)
    have c: "lf0_frame_count e d s b = nrows ?a"
      unfolding lf0_frame_count_def p by simp
    have m: "(if nrows ?a > l then nrows ?a else l) = max l (nrows ?a)"
      by (simp add: max_def)
    have "outcome (scan_basenames e d s (b # bs) l) =
            outcome (scan_basenames e d s bs (max l (nrows ?a)))"
      unfolding scan_basenames.simps outcome_and_then p m by simp
    then show ?thesis
      using Some by (simp add: Cons.IH c Max_insert_max del: Max_insert)
  qed
qed

lemma scan_speakers_Inr_iff:
  "outcome (scan_speakers e d ss bs l) = Inr r \<longleftrightarrow>
     (\<forall>s\<in>set ss. \<forall>b\<in>set bs. dat_files e (lf0_path d s b) \<noteq> None) \<and>
     r = Max (insert l ((\<lambda>(s, b). lf0_frame_count e d s b) ` (set ss \<times> set bs)))"
proof (induction ss arbitrary: l r)
  case Nil
  show ?case by auto
next
  case (Cons s ss)
  let ?A = "lf0_frame_count e d s ` set bs"
  let ?B = "(\<lambda>(s, b). lf0_frame_count e d s b) ` (set ss \<times> set bs)"
  have img: "(\<lambda>(s, b). lf0_frame_count e d s b) ` (set (s # ss) \<times> set bs) = ?A \<union> ?B"
    by auto
  have mx: "Max (insert (Max (insert l ?A)) ?B) = Max (insert l (?A \<union> ?B))"
    by (rule Max_insert_Max) simp_all
  show ?case
    unfolding scan_speakers.simps and_then_Inr_iff scan_basenames_Inr_iff Cons.IH img
    using mx by auto
qed

lemma find_longest_sequence_Inr_iff:
  "outcome (find_longest_sequence e data_dir speakers_list basenames_list) = Inr n \<longleftrightarrow>
     data_dir \<noteq> [] \<and>
     (\<forall>s\<in>set speakers_list. \<forall>b\<in>set basenames_list.
        dat_files e (lf0_path data_dir s b) \<noteq> None) \<and>
     n = Max (insert 0 ((\<lambda>(s, b). lf0_frame_count e data_dir s b) `
                          (set speakers_list \<times> set basenames_list)))"
  unfolding find_longest_sequence_def and_then_Inr_iff scan_speakers_Inr_iff
  by (auto simp: check_ends_in_slash_def)

text \<open>
  C8.  \<^verbatim>\<open>find_longest_sequence\<close> returns a number exactly when the data root is not the empty
  string and the log-F0 file of every (speaker, basename) combination of the two lists can
  be read, and the number it returns is then the maximum frame count (number of rows) of
  the one-column log-F0 stream over all these combinations (0 when there is none).
\<close>

theorem find_longest_sequence_is_maximum:
  "outcome (find_longest_sequence e data_dir speakers_list basenames_list) = Inr n \<longleftrightarrow>
     data_dir \<noteq> [] \<and>
     (\<forall>s\<in>set speakers_list. \<forall>b\<in>set basenames_list.
        dat_files e (lf0_path data_dir s b) \<noteq> None) \<and>
     n = Max (insert 0 ((\<lambda>(s, b). lf0_frame_count e data_dir s b) `
                          (set speakers_list \<times> set basenames_list)))"
  by (rule find_longest_sequence_Inr_iff)

theorem find_longest_sequence_is_maximum_witness:
  "outcome (find_longest_sequence corpus ''d/'' [''a'', ''b''] [''u'']) = Inr 3 \<and>
   3 = Max (insert 0 ((\<lambda>(s, b). lf0_frame_count corpus ''d/'' s b) `
                        (set [''a'', ''b''] \<times> set [''u''])))"
proof -
  have h: "outcome (find_longest_sequence corpus ''d/'' [''a'', ''b''] [''u'']) = Inr 3"
    by code_simp
  from iffD1 [OF find_longest_sequence_is_maximum h] have
    "3 = Max (insert 0 ((\<lambda>(s, b). lf0_frame_count corpus ''d/'' s b) `
                          (set [''a'', ''b''] \<times> set [''u''])))"
    by (elim conjE)
  with h show ?thesis by (rule conjI)
qed

section \<open>The path check\<close>

lemma check_ends_in_slash_reports:
  "dir \<noteq> [] \<Longrightarrow> last dir \<noteq> CHR ''/'' \<Longrightarrow>
     check_ends_in_slash dir msg = ([msg], Inr ())"
  by (simp add: check_ends_in_slash_def print_def)

lemma find_longest_sequence_continues:
  assumes "data_dir \<noteq> []" "last data_dir \<noteq> CHR ''/''"
  shows "find_longest_sequence e data_dir speakers_list basenames_list =
           (msg_data_dir # printed (scan_speakers e data_dir speakers_list basenames_list 0),
            outcome (scan_speakers e data_dir speakers_list basenames_list 0))"
  unfolding find_longest_sequence_def check_ends_in_slash_reports [OF assms]
  by (simp add: and_then_def printed_def outcome_def split: prod.splits sum.splits)

text \<open>
  C9.  The empty string is a data root that does not end in \<^verbatim>\<open>/\<close>.  For it the check
  itself raises IndexError: nothing is printed and the scan does not start.
\<close>

theorem find_longest_sequence_empty_data_dir:
  "find_longest_sequence corpus [] [''a'', ''b''] [''u''] = ([], Inl IndexError)"
  by (simp add: find_longest_sequence_def check_ends_in_slash_def and_then_def raise_def)

section \<open>What the pair builder returns\<close>

lemma parse_file_Inr:
  "outcome (parse_file e w path) = Inr a \<longleftrightarrow> readable e w path \<and> a = stream e w path"
  by (auto simp: parse_file_def readable_def stream_def split: option.splits)

lemma check_Inr [simp]: "outcome (check_ends_in_slash dir msg) = Inr u \<longleftrightarrow> dir \<noteq> []"
  by (simp add: check_ends_in_slash_def)

lemma py_assert_Inr [simp]: "outcome (py_assert c) = Inr u \<longleftrightarrow> c"
  by (simp add: py_assert_def)

lemma np_zeros_int_Inr:
  "outcome (np_zeros_int (int n - int k) w) = Inr a \<longleftrightarrow> k \<le> n \<and> a = np_zeros (n - k) w"
  by (auto simp: np_zeros_int_def nat_diff_distrib')

lemma zero_pad_params_Inr:
  "outcome (zero_pad_params n mode a) = Inr p \<longleftrightarrow>
     nrows a \<le> n \<and> p = (case mode of Src \<Rightarrow> front_pad n a | Trg \<Rightarrow> back_pad n a)"
  by (cases mode)
     (auto simp: zero_pad_params_def and_then_Inr_iff np_zeros_int_Inr np_zeros_def
                 front_pad_def back_pad_def)

lemma eos_flag_Inr:
  "outcome (eos_flag (n, 1)) = Inr f \<longleftrightarrow> 0 < n \<and> f = eos_column n"
proof (cases n)
  case 0
  then show ?thesis by (simp add: eos_flag_def)
next
  case (Suc m)
  have "(replicate (Suc m) [0::real])[m := [1]] = replicate m [0] @ [[1]]"
    by (induction m) auto
  then show ?thesis
    using Suc by (auto simp: eos_flag_def eos_column_def)
qed

lemma to_categorical_Inr:
  "0 < n \<Longrightarrow> outcome (to_categorical (replicate n index) 10) = Inr c \<longleftrightarrow>
     index < 10 \<and> c = speaker_rows n index"
  by (cases n) (auto simp: to_categorical_def speaker_rows_def list_all_iff)

lemma np_concatenate0_Inr:
  "ncols a = ncols b \<Longrightarrow>
     outcome (np_concatenate0 a b) = Inr c \<longleftrightarrow> c = \<lparr>ncols = ncols a, rows = rows a @ rows b\<rparr>"
  by (auto simp: np_concatenate0_def)

lemma np_concatenate1_Inr:
  "list_all (\<lambda>b. nrows b = n) (a # arrays) \<Longrightarrow>
     outcome (np_concatenate1 (a # arrays)) = Inr c \<longleftrightarrow> c = hcat n (a # arrays)"
  by (auto simp: np_concatenate1_def hcat_def list_all_iff)

lemma nrows_front_pad [simp]: "nrows a \<le> n \<Longrightarrow> nrows (front_pad n a) = n"
  by (simp add: nrows_def front_pad_def)

lemma nrows_back_pad [simp]: "nrows a \<le> n \<Longrightarrow> nrows (back_pad n a) = n"
  by (simp add: nrows_def back_pad_def)

lemma ncols_simps [simp]:
  "ncols (front_pad n a) = ncols a" "ncols (back_pad n a) = ncols a"
  "ncols (stream e w path) = w" "ncols (voiced_flags a) = ncols a"
  "ncols (eos_column n) = 1" "ncols (speaker_rows n i) = 10"
  "ncols (np_zeros n w) = w" "ncols (np_ones n w) = w"
  by (simp_all add: front_pad_def back_pad_def stream_def voiced_flags_def eos_column_def
        speaker_rows_def np_zeros_def np_ones_def)

lemma nrows_simps [simp]:
  "nrows (voiced_flags a) = nrows a" "nrows (eos_column n) = Suc (n - 1)"
  "nrows (speaker_rows n i) = n" "nrows (np_zeros n w) = n" "nrows (np_ones n w) = n"
  by (simp_all add: nrows_def voiced_flags_def eos_column_def speaker_rows_def np_zeros_def
        np_ones_def)


lemma shape_stream1: "shape (stream e 1 p) = (nrows (stream e 1 p), 1)"
  by (simp add: shape_def)

lemma nrows_mask [simp]:
  "nrows \<lparr>ncols = c, rows = replicate k x @ replicate m y\<rparr> = k + m"
  by (simp add: nrows_def)

lemma rows_np [simp]:
  "rows (np_zeros n w) = replicate n (replicate w 0)"
  "rows (np_ones n w) = replicate n (replicate w 1)"
  by (simp_all add: np_zeros_def np_ones_def)

lemma replicate_1 [simp]: "replicate 1 x = [x]"
  by simp

lemma build_file_table_iff:
  "outcome (seq2seq_build_file_table e source_dir src_index target_dir trg_index basename
       longest_seq) = Inr r \<longleftrightarrow>
     build_returns e source_dir src_index target_dir trg_index basename longest_seq \<and>
     r = (source_features (side_streams e source_dir basename)
            (side_streams e target_dir basename) src_index trg_index longest_seq,
          source_mask_of (side_streams e source_dir basename) longest_seq,
          target_features (side_streams e target_dir basename) longest_seq,
          target_mask_of (side_streams e target_dir basename) longest_seq)"
  unfolding seq2seq_build_file_table_def and_then_Inr_iff
  by (auto simp: parse_file_Inr zero_pad_params_Inr np_zeros_int_Inr shape_stream1
      eos_flag_Inr to_categorical_Inr np_concatenate0_Inr np_concatenate1_Inr
      build_returns_def side_readable_def side_fits_def side_streams_def
      source_features_def target_features_def source_mask_of_def target_mask_of_def shape_def
      simp del: One_nat_def)


section \<open>The masks of a pair\<close>

lemma masks_of_returned_pair:
  assumes "outcome (seq2seq_build_file_table e source_dir src_index target_dir trg_index
             basename longest_seq) = Inr (source_params, source_mask, target_params, target_mask)"
  shows "nrows (mcp (side_streams e source_dir basename)) \<le> longest_seq \<and>
         nrows (mcp (side_streams e target_dir basename)) \<le> longest_seq \<and>
         rows source_mask =
           replicate (longest_seq - nrows (mcp (side_streams e source_dir basename))) [0] @
           replicate (nrows (mcp (side_streams e source_dir basename))) [1] \<and>
         rows target_mask =
           replicate (nrows (mcp (side_streams e target_dir basename))) [1] @
           replicate (longest_seq - nrows (mcp (side_streams e target_dir basename))) [0] \<and>
         length (filter (\<lambda>r. r = [1]) (rows source_mask)) =
           nrows (mcp (side_streams e source_dir basename)) \<and>
         length (filter (\<lambda>r. r = [1]) (rows target_mask)) =
           nrows (mcp (side_streams e target_dir basename)) \<and>
         nrows source_mask = longest_seq \<and> nrows target_mask = longest_seq \<and>
         ncols source_mask = 1 \<and> ncols target_mask = 1"
proof -
  let ?s = "side_streams e source_dir basename" and ?t = "side_streams e target_dir basename"
  from assms have ok: "build_returns e source_dir src_index target_dir trg_index basename longest_seq"
    and sm: "source_mask = source_mask_of ?s longest_seq"
    and tm: "target_mask = target_mask_of ?t longest_seq"
    by (simp_all add: build_file_table_iff)
  from ok have le: "nrows (mcp ?s) \<le> longest_seq" "nrows (mcp ?t) \<le> longest_seq"
    by (simp_all add: build_returns_def side_fits_def)
  show ?thesis
    using le by (simp add: sm tm source_mask_of_def target_mask_of_def nrows_def)
qed

lemma corpus_pair_a_b:
  "outcome (seq2seq_build_file_table corpus ''d/vocoded_s2s/a/'' 0 ''d/vocoded_s2s/b/'' 1 ''u'' 3) =
     Inr (source_features (side_streams corpus ''d/vocoded_s2s/a/'' ''u'')
            (side_streams corpus ''d/vocoded_s2s/b/'' ''u'') 0 1 3,
          \<lparr>ncols = 1, rows = [[0], [1], [1]]\<rparr>,
          target_features (side_streams corpus ''d/vocoded_s2s/b/'' ''u'') 3,
          \<lparr>ncols = 1, rows = [[1], [1], [1]]\<rparr>)"
  by code_simp

lemma corpus_frame_counts:
  "nrows (mcp (side_streams corpus ''d/vocoded_s2s/a/'' ''u'')) = 2"
  "nrows (mcp (side_streams corpus ''d/vocoded_s2s/b/'' ''u'')) = 3"
  "nrows (vf (side_streams corpus ''d/vocoded_s2s/a/'' ''u'')) = 2"
  "nrows (vf (side_streams corpus ''d/vocoded_s2s/b/'' ''u'')) = 3"
  by code_simp+

lemma corpus_pair_returns:
  "build_returns corpus ''d/vocoded_s2s/a/'' 0 ''d/vocoded_s2s/b/'' 1 ''u'' 3"
  by code_simp

lemma corpus_pair_outcome:
  "outcome (seq2seq_build_file_table corpus ''d/vocoded_s2s/a/'' 0 ''d/vocoded_s2s/b/'' 1 ''u'' 3) =
     Inr (source_features (side_streams corpus ''d/vocoded_s2s/a/'' ''u'')
            (side_streams corpus ''d/vocoded_s2s/b/'' ''u'') 0 1 3,
          source_mask_of (side_streams corpus ''d/vocoded_s2s/a/'' ''u'') 3,
          target_features (side_streams corpus ''d/vocoded_s2s/b/'' ''u'') 3,
          target_mask_of (side_streams corpus ''d/vocoded_s2s/b/'' ''u'') 3)"
  by (rule iffD2 [OF build_file_table_iff]) (rule conjI [OF corpus_pair_returns refl])

text \<open>
  C2.  The pair builder returns exactly when it can (\<open>build_returns\<close>: the directory strings
  are not empty, the ten files parse, voicing and log-F0 have the same non-zero number of
  frames on each side, the speaker indices are below 10 and no stream is longer than
  \<open>longest_seq\<close>).  The true frame count of each side, the number of rows of its spectral
  stream, is then at most \<open>longest_seq\<close>; the source mask is \<open>longest_seq - n\<close> zero rows
  followed by \<open>n\<close> one rows for the source's frame count \<open>n\<close>, the target mask is \<open>n\<close> one
  rows followed by \<open>longest_seq - n\<close> zero rows for the target's frame count \<open>n\<close>; each mask
  has as many ones as its side has frames, and both masks have \<open>longest_seq\<close> rows.
\<close>

theorem masks_of_pair:
  assumes "s = side_streams e source_dir basename" and "t = side_streams e target_dir basename"
  shows "outcome (seq2seq_build_file_table e source_dir src_index target_dir trg_index
           basename longest_seq) = Inr (source_params, source_mask, target_params, target_mask)
         \<longleftrightarrow>
         build_returns e source_dir src_index target_dir trg_index basename longest_seq \<and>
         source_params = source_features s t src_index trg_index longest_seq \<and>
         target_params = target_features t longest_seq \<and>
         nrows (mcp s) \<le> longest_seq \<and> nrows (mcp t) \<le> longest_seq \<and>
         source_mask =
           \<lparr>ncols = 1,
            rows = replicate (longest_seq - nrows (mcp s)) [0] @ replicate (nrows (mcp s)) [1]\<rparr> \<and>
         target_mask =
           \<lparr>ncols = 1,
            rows = replicate (nrows (mcp t)) [1] @ replicate (longest_seq - nrows (mcp t)) [0]\<rparr> \<and>
         length (filter (\<lambda>r. r = [1]) (rows source_mask)) = nrows (mcp s) \<and>
         length (filter (\<lambda>r. r = [1]) (rows target_mask)) = nrows (mcp t) \<and>
         nrows source_mask = longest_seq \<and> nrows target_mask = longest_seq"
    (is "?returns \<longleftrightarrow> ?described")
proof
  assume r: ?returns
  from masks_of_returned_pair [OF r] r show ?described
    by (simp add: build_file_table_iff assms source_mask_of_def target_mask_of_def)
next
  assume ?described
  then show ?returns
    by (simp add: build_file_table_iff assms source_mask_of_def target_mask_of_def)
qed

theorem masks_of_pair_witness:
  "outcome (seq2seq_build_file_table corpus ''d/vocoded_s2s/a/'' 0 ''d/vocoded_s2s/b/'' 1 ''u'' 3) =
     Inr (source_features (side_streams corpus ''d/vocoded_s2s/a/'' ''u'')
            (side_streams corpus ''d/vocoded_s2s/b/'' ''u'') 0 1 3,
          \<lparr>ncols = 1, rows = replicate (3 - 2) [0] @ replicate 2 [1]\<rparr>,
          target_features (side_streams corpus ''d/vocoded_s2s/b/'' ''u'') 3,
          \<lparr>ncols = 1, rows = replicate 3 [1] @ replicate (3 - 3) [0]\<rparr>)"
proof -
  have "length (filter (\<lambda>r. r = [1]) (replicate (3 - 2) [0::real] @ replicate 2 [1])) = 2"
       "length (filter (\<lambda>r. r = [1]) (replicate 3 [1::real] @ replicate (3 - 3) [0])) = 3"
       "nrows \<lparr>ncols = 1, rows = replicate (3 - 2) [0::real] @ replicate 2 [1]\<rparr> = 3"
       "nrows \<lparr>ncols = 1, rows = replicate 3 [1::real] @ replicate (3 - 3) [0]\<rparr> = 3"
    by code_simp+
  then show ?thesis
    using corpus_pair_returns
    by (subst masks_of_pair [OF refl refl]) (simp add: corpus_frame_counts)
qed


section \<open>The columns of a pair\<close>

lemma well_shaped_iff: "well_shaped a \<longleftrightarrow> (\<forall>r\<in>set (rows a). length r = ncols a)"
  by (simp add: well_shaped_def list_all_iff)

lemma length_chunk:
  assumes "i < length xs div w"
  shows "length (take w (drop (i * w) xs)) = w"
proof -
  have "0 < w" using assms by (cases w) auto
  have "Suc i \<le> length xs div w" using assms by simp
  then have "Suc i * w \<le> length xs div w * w" by (rule mult_le_mono1)
  also have "\<dots> \<le> length xs" by simp
  finally have "i * w + w \<le> length xs" by simp
  then show ?thesis by simp
qed

lemma well_shaped_stream [simp]: "well_shaped (stream e w path)"
  by (auto simp: well_shaped_iff stream_def chunks_def length_chunk
        simp del: length_take length_drop split: option.splits)

lemma well_shaped_front_pad [simp]: "well_shaped a \<Longrightarrow> well_shaped (front_pad n a)"
  by (auto simp: well_shaped_iff front_pad_def)

lemma well_shaped_back_pad [simp]: "well_shaped a \<Longrightarrow> well_shaped (back_pad n a)"
  by (auto simp: well_shaped_iff back_pad_def)

lemma well_shaped_voiced_flags [simp]: "well_shaped a \<Longrightarrow> well_shaped (voiced_flags a)"
  by (auto simp: well_shaped_iff voiced_flags_def)

lemma well_shaped_eos_column [simp]: "well_shaped (eos_column n)"
  by (auto simp: well_shaped_iff eos_column_def)

lemma well_shaped_speaker_rows [simp]: "well_shaped (speaker_rows n i)"
  by (auto simp: well_shaped_iff speaker_rows_def one_hot_def)

lemma nrows_hcat [simp]: "nrows (hcat n arrays) = n"
  by (simp add: nrows_def hcat_def)

lemma row_hcat:
  "i < n \<Longrightarrow> rows (hcat n arrays) ! i = concat (map (\<lambda>a. rows a ! i) arrays)"
  by (simp add: hcat_def)

lemma length_row_hcat:
  assumes "\<forall>a\<in>set arrays. well_shaped a \<and> nrows a = n" "i < n"
  shows "length (concat (map (\<lambda>a. rows a ! i) arrays)) = sum_list (map ncols arrays)"
proof -
  have eq: "map (\<lambda>a. length (rows a ! i)) arrays = map ncols arrays"
    using assms by (auto simp: well_shaped_iff nrows_def)
  show ?thesis
    unfolding length_concat map_map comp_def eq by (rule refl)
qed

lemma well_shaped_hcat:
  assumes "\<forall>a\<in>set arrays. well_shaped a \<and> nrows a = n"
  shows "well_shaped (hcat n arrays)"
  unfolding well_shaped_iff
proof
  fix r assume "r \<in> set (rows (hcat n arrays))"
  then obtain i where i: "i < n" and r: "r = concat (map (\<lambda>a. rows a ! i) arrays)"
    by (auto simp: hcat_def)
  show "length r = ncols (hcat n arrays)"
    unfolding r length_row_hcat [OF assms i] by (simp add: hcat_def)
qed

lemma side_streams_simps [simp]:
  "ncols (mcp (side_streams e dir b)) = 40" "ncols (f0 (side_streams e dir b)) = 1"
  "ncols (f0_i (side_streams e dir b)) = 1" "ncols (vf (side_streams e dir b)) = 1"
  "ncols (vf_i (side_streams e dir b)) = 1"
  "well_shaped (mcp (side_streams e dir b))" "well_shaped (f0 (side_streams e dir b))"
  "well_shaped (f0_i (side_streams e dir b))" "well_shaped (vf (side_streams e dir b))"
  "well_shaped (vf_i (side_streams e dir b))"
  by (simp_all add: side_streams_def)

text \<open>
  C4, as stated, gives the source feature matrix 65 columns.  The pair of the corpus with
  source \<^verbatim>\<open>a\<close> and target \<^verbatim>\<open>b\<close> has 64.
\<close>

theorem source_columns_counterexample:
  "map_sum id (ncols \<circ> fst)
     (outcome (seq2seq_build_file_table corpus ''d/vocoded_s2s/a/'' 0
                 ''d/vocoded_s2s/b/'' 1 ''u'' 3)) = Inr 64 \<and>
   map_sum id (ncols \<circ> fst)
     (outcome (seq2seq_build_file_table corpus ''d/vocoded_s2s/a/'' 0
                 ''d/vocoded_s2s/b/'' 1 ''u'' 3)) \<noteq> Inr 65"
  by code_simp

text \<open>
  C4, amended.  When the pair builder returns, the source feature matrix is the column-wise
  concatenation, in this order, of the front-padded spectral stream (40 columns),
  interpolated F0 (1), interpolated voicing (1), voiced flag (1), end-of-sequence flag (1),
  source one-hot (10) and target one-hot (10): 64 columns in every one of its
  \<open>longest_seq\<close> rows.  The target feature matrix is the concatenation of the back-padded
  spectral stream (40), interpolated F0 (1), interpolated voicing (1), voiced flag (1) and
  end-of-sequence flag (1): 44 columns in every one of its \<open>longest_seq\<close> rows.
\<close>

theorem columns_of_pair:
  assumes "outcome (seq2seq_build_file_table e source_dir src_index target_dir trg_index
             basename longest_seq) = Inr (source_params, source_mask, target_params, target_mask)"
      and "s = side_streams e source_dir basename" and "t = side_streams e target_dir basename"
  shows "source_params =
           hcat longest_seq
             [front_pad longest_seq (mcp s), front_pad longest_seq (f0_i s),
              front_pad longest_seq (vf_i s), front_pad longest_seq (voiced_flags (vf s)),
              front_pad longest_seq (eos_column (nrows (vf s))),
              front_pad longest_seq (speaker_rows (nrows (vf s)) src_index),
              front_pad longest_seq (speaker_rows (nrows (vf t)) trg_index)] \<and>
         map ncols
             [front_pad longest_seq (mcp s), front_pad longest_seq (f0_i s),
              front_pad longest_seq (vf_i s), front_pad longest_seq (voiced_flags (vf s)),
              front_pad longest_seq (eos_column (nrows (vf s))),
              front_pad longest_seq (speaker_rows (nrows (vf s)) src_index),
              front_pad longest_seq (speaker_rows (nrows (vf t)) trg_index)] =
           [40, 1, 1, 1, 1, 10, 10] \<and>
         ncols source_params = 64 \<and> nrows source_params = longest_seq \<and>
         well_shaped source_params \<and>
         target_params =
           hcat longest_seq
             [back_pad longest_seq (mcp t), back_pad longest_seq (f0_i t),
              back_pad longest_seq (vf_i t), back_pad longest_seq (voiced_flags (vf t)),
              back_pad longest_seq (eos_column (nrows (vf t)))] \<and>
         map ncols
             [back_pad longest_seq (mcp t), back_pad longest_seq (f0_i t),
              back_pad longest_seq (vf_i t), back_pad longest_seq (voiced_flags (vf t)),
              back_pad longest_seq (eos_column (nrows (vf t)))] =
           [40, 1, 1, 1, 1] \<and>
         ncols target_params = 44 \<and> nrows target_params = longest_seq \<and>
         well_shaped target_params"
proof -
  from assms(1) have ok: "build_returns e source_dir src_index target_dir trg_index basename longest_seq"
    and sp: "source_params = source_features s t src_index trg_index longest_seq"
    and tp: "target_params = target_features t longest_seq"
    by (simp_all add: build_file_table_iff assms(2,3))
  from ok have fit: "side_fits s src_index longest_seq" "side_fits t trg_index longest_seq"
    by (simp_all add: build_returns_def assms(2,3))
  have ws: "well_shaped source_params"
    unfolding sp source_features_def
    by (rule well_shaped_hcat) (use fit in \<open>auto simp: side_fits_def assms(2,3)\<close>)
  have wt: "well_shaped target_params"
    unfolding tp target_features_def
    by (rule well_shaped_hcat) (use fit in \<open>auto simp: side_fits_def assms(2,3)\<close>)
  show ?thesis
    using ws wt
    by (simp add: sp tp source_features_def target_features_def assms(2,3))
       (simp add: hcat_def)
qed


theorem columns_of_pair_witness:
  "ncols (source_features (side_streams corpus ''d/vocoded_s2s/a/'' ''u'')
            (side_streams corpus ''d/vocoded_s2s/b/'' ''u'') 0 1 3) = 64 \<and>
   well_shaped (source_features (side_streams corpus ''d/vocoded_s2s/a/'' ''u'')
            (side_streams corpus ''d/vocoded_s2s/b/'' ''u'') 0 1 3) \<and>
   ncols (target_features (side_streams corpus ''d/vocoded_s2s/b/'' ''u'') 3) = 44 \<and>
   well_shaped (target_features (side_streams corpus ''d/vocoded_s2s/b/'' ''u'') 3)"
  using columns_of_pair [OF corpus_pair_a_b refl refl] by blast

section \<open>The flag columns of a pair\<close>

lemma nth_columns:
  assumes "length r1 = 40" "length r2 = 1" "length r3 = 1" "length r4 = 1" "length r5 = 1"
  shows "(r1 @ r2 @ r3 @ r4 @ r5 @ rest) ! 42 = r4 ! 0"
    and "(r1 @ r2 @ r3 @ r4 @ r5 @ rest) ! 43 = r5 ! 0"
  using assms by (simp_all add: nth_append)

lemma length_row:
  "well_shaped a \<Longrightarrow> i < nrows a \<Longrightarrow> length (rows a ! i) = ncols a"
  by (simp add: well_shaped_iff nrows_def)

lemma source_row:
  assumes "side_fits s src_index n" "side_fits t trg_index n" "i < n"
    and "well_shaped (mcp s)" "well_shaped (f0_i s)" "well_shaped (vf_i s)" "well_shaped (vf s)"
    and "ncols (mcp s) = 40" "ncols (f0_i s) = 1" "ncols (vf_i s) = 1" "ncols (vf s) = 1"
  shows "rows (source_features s t src_index trg_index n) ! i ! 42 =
           rows (front_pad n (voiced_flags (vf s))) ! i ! 0"
    and "rows (source_features s t src_index trg_index n) ! i ! 43 =
           rows (front_pad n (eos_column (nrows (vf s)))) ! i ! 0"
proof -
  have le: "nrows (mcp s) \<le> n" "nrows (f0_i s) \<le> n" "nrows (vf_i s) \<le> n" "nrows (vf s) \<le> n"
    and pos: "0 < nrows (vf s)"
    using assms(1) by (simp_all add: side_fits_def)
  have l: "length (rows (front_pad n (mcp s)) ! i) = 40"
          "length (rows (front_pad n (f0_i s)) ! i) = 1"
          "length (rows (front_pad n (vf_i s)) ! i) = 1"
          "length (rows (front_pad n (voiced_flags (vf s))) ! i) = 1"
          "length (rows (front_pad n (eos_column (nrows (vf s)))) ! i) = 1"
    using assms le pos by (simp_all add: length_row)
  show "rows (source_features s t src_index trg_index n) ! i ! 42 =
           rows (front_pad n (voiced_flags (vf s))) ! i ! 0"
    and "rows (source_features s t src_index trg_index n) ! i ! 43 =
           rows (front_pad n (eos_column (nrows (vf s)))) ! i ! 0"
    using assms(3) by (simp_all add: source_features_def row_hcat nth_columns [OF l])
qed

lemma target_row:
  assumes "side_fits t trg_index n" "i < n"
    and "well_shaped (mcp t)" "well_shaped (f0_i t)" "well_shaped (vf_i t)" "well_shaped (vf t)"
    and "ncols (mcp t) = 40" "ncols (f0_i t) = 1" "ncols (vf_i t) = 1" "ncols (vf t) = 1"
  shows "rows (target_features t n) ! i ! 42 = rows (back_pad n (voiced_flags (vf t))) ! i ! 0"
    and "rows (target_features t n) ! i ! 43 =
           rows (back_pad n (eos_column (nrows (vf t)))) ! i ! 0"
proof -
  have le: "nrows (mcp t) \<le> n" "nrows (f0_i t) \<le> n" "nrows (vf_i t) \<le> n" "nrows (vf t) \<le> n"
    and pos: "0 < nrows (vf t)"
    using assms(1) by (simp_all add: side_fits_def)
  have l: "length (rows (back_pad n (mcp t)) ! i) = 40"
          "length (rows (back_pad n (f0_i t)) ! i) = 1"
          "length (rows (back_pad n (vf_i t)) ! i) = 1"
          "length (rows (back_pad n (voiced_flags (vf t))) ! i) = 1"
          "length (rows (back_pad n (eos_column (nrows (vf t)))) ! i) = 1"
    using assms le pos by (simp_all add: length_row)
  have "(r1 @ r2 @ r3 @ r4 @ r5) = (r1 @ r2 @ r3 @ r4 @ r5 @ [])" for r1 r2 r3 r4 r5 :: "real list"
    by simp
  then show "rows (target_features t n) ! i ! 42 = rows (back_pad n (voiced_flags (vf t))) ! i ! 0"
    and "rows (target_features t n) ! i ! 43 =
           rows (back_pad n (eos_column (nrows (vf t)))) ! i ! 0"
    using assms(2) nth_columns [OF l, of "[]"]
    by (simp_all add: target_features_def row_hcat)
qed

lemma voiced_value: "real_of_int (1 - kronecker_delta v) = (if v = 0 then 0 else 1)"
  by (simp add: kronecker_delta_def)

lemma row_voiced_flags:
  "well_shaped a \<Longrightarrow> ncols a = 1 \<Longrightarrow> i < nrows a \<Longrightarrow>
     rows (voiced_flags a) ! i ! 0 = (if rows a ! i ! 0 = 0 then 0 else 1)"
  using length_row [of a i]
  by (simp add: voiced_flags_def nrows_def kronecker_delta_def)

lemma row_front_pad:
  "nrows a \<le> n \<Longrightarrow> i < nrows a \<Longrightarrow> rows (front_pad n a) ! (n - nrows a + i) = rows a ! i"
  by (auto simp: front_pad_def nth_append nrows_def)

lemma row_back_pad:
  "i < nrows a \<Longrightarrow> rows (back_pad n a) ! i = rows a ! i"
  by (simp add: back_pad_def nth_append nrows_def)


lemma length_rows_eos_pad:
  "0 < k \<Longrightarrow> k \<le> n \<Longrightarrow> length (rows (front_pad n (eos_column k))) = n"
  "0 < k \<Longrightarrow> k \<le> n \<Longrightarrow> length (rows (back_pad n (eos_column k))) = n"
  by (auto simp: front_pad_def back_pad_def eos_column_def nrows_def)

lemma eos_rows_front:
  "0 < k \<Longrightarrow> k \<le> n \<Longrightarrow>
     map (\<lambda>r. r ! 0) (rows (front_pad n (eos_column k))) =
       replicate (n - k) 0 @ replicate (k - 1) 0 @ [1]"
  by (simp add: front_pad_def eos_column_def nrows_def)

lemma eos_rows_back:
  "0 < k \<Longrightarrow> k \<le> n \<Longrightarrow>
     map (\<lambda>r. r ! 0) (rows (back_pad n (eos_column k))) =
       replicate (k - 1) 0 @ [1] @ replicate (n - k) 0"
  by (simp add: back_pad_def eos_column_def nrows_def)

lemma voiced_flag_of_returned_pair:
  assumes "outcome (seq2seq_build_file_table e source_dir src_index target_dir trg_index
             basename longest_seq) = Inr (source_params, source_mask, target_params, target_mask)"
      and "s = side_streams e source_dir basename" and "t = side_streams e target_dir basename"
  shows "(\<forall>i<nrows (vf s).
            rows source_params ! (longest_seq - nrows (vf s) + i) ! 42 =
              (if rows (vf s) ! i ! 0 = 0 then 0 else 1)) \<and>
         (\<forall>i<nrows (vf t).
            rows target_params ! i ! 42 = (if rows (vf t) ! i ! 0 = 0 then 0 else 1))"
proof -
  from assms(1) have ok: "build_returns e source_dir src_index target_dir trg_index basename longest_seq"
    and sp: "source_params = source_features s t src_index trg_index longest_seq"
    and tp: "target_params = target_features t longest_seq"
    by (simp_all add: build_file_table_iff assms(2,3))
  from ok have fit: "side_fits s src_index longest_seq" "side_fits t trg_index longest_seq"
    by (simp_all add: build_returns_def assms(2,3))
  then have le: "nrows (vf s) \<le> longest_seq" "nrows (vf t) \<le> longest_seq"
    by (simp_all add: side_fits_def)
  have "rows source_params ! (longest_seq - nrows (vf s) + i) ! 42 =
          (if rows (vf s) ! i ! 0 = 0 then 0 else 1)" if "i < nrows (vf s)" for i
  proof -
    have "longest_seq - nrows (vf s) + i < longest_seq" using that le by simp
    then have "rows source_params ! (longest_seq - nrows (vf s) + i) ! 42 =
        rows (front_pad longest_seq (voiced_flags (vf s))) ! (longest_seq - nrows (vf s) + i) ! 0"
      unfolding sp by (intro source_row(1) [OF fit]) (simp_all add: assms(2))
    also have "\<dots> = rows (voiced_flags (vf s)) ! i ! 0"
      using row_front_pad [of "voiced_flags (vf s)" longest_seq i] that le by simp
    also have "\<dots> = (if rows (vf s) ! i ! 0 = 0 then 0 else 1)"
      using that by (intro row_voiced_flags) (simp_all add: assms(2))
    finally show ?thesis .
  qed
  moreover have "rows target_params ! i ! 42 = (if rows (vf t) ! i ! 0 = 0 then 0 else 1)"
    if "i < nrows (vf t)" for i
  proof -
    have "i < longest_seq" using that le by simp
    then have "rows target_params ! i ! 42 =
        rows (back_pad longest_seq (voiced_flags (vf t))) ! i ! 0"
      unfolding tp by (intro target_row(1) [OF fit(2)]) (simp_all add: assms(3))
    also have "\<dots> = rows (voiced_flags (vf t)) ! i ! 0"
      using row_back_pad [of i "voiced_flags (vf t)" longest_seq] that by simp
    also have "\<dots> = (if rows (vf t) ! i ! 0 = 0 then 0 else 1)"
      using that by (intro row_voiced_flags) (simp_all add: assms(3))
    finally show ?thesis .
  qed
  ultimately show ?thesis by blast
qed

text \<open>
  C6.  The pair builder returns exactly when it can, and the voiced flag is then column 42
  of both feature matrices.  For every frame \<open>i\<close> of the source's raw voicing stream, which
  the front padding moves to row \<open>longest_seq - n + i\<close>, and for every frame \<open>i\<close> of the
  target's, which stays at row \<open>i\<close>, the flag is 0 if the raw voicing value of the frame is
  exactly 0 and is 1 otherwise.
\<close>

theorem voiced_flag_of_pair:
  assumes "s = side_streams e source_dir basename" and "t = side_streams e target_dir basename"
  shows "outcome (seq2seq_build_file_table e source_dir src_index target_dir trg_index
           basename longest_seq) = Inr (source_params, source_mask, target_params, target_mask)
         \<longleftrightarrow>
         build_returns e source_dir src_index target_dir trg_index basename longest_seq \<and>
         source_params = source_features s t src_index trg_index longest_seq \<and>
         source_mask = source_mask_of s longest_seq \<and>
         target_params = target_features t longest_seq \<and>
         target_mask = target_mask_of t longest_seq \<and>
         (\<forall>i<nrows (vf s).
            rows source_params ! (longest_seq - nrows (vf s) + i) ! 42 =
              (if rows (vf s) ! i ! 0 = 0 then 0 else 1)) \<and>
         (\<forall>i<nrows (vf t).
            rows target_params ! i ! 42 = (if rows (vf t) ! i ! 0 = 0 then 0 else 1))"
    (is "?returns \<longleftrightarrow> ?described")
proof
  assume r: ?returns
  from voiced_flag_of_returned_pair [OF r assms] r show ?described
    by (simp add: build_file_table_iff assms)
next
  assume ?described
  then show ?returns
    by (simp add: build_file_table_iff assms)
qed

theorem voiced_flag_of_pair_witness:
  "outcome (seq2seq_build_file_table corpus ''d/vocoded_s2s/a/'' 0 ''d/vocoded_s2s/b/'' 1 ''u'' 3) =
     Inr (source_features (side_streams corpus ''d/vocoded_s2s/a/'' ''u'')
            (side_streams corpus ''d/vocoded_s2s/b/'' ''u'') 0 1 3,
          source_mask_of (side_streams corpus ''d/vocoded_s2s/a/'' ''u'') 3,
          target_features (side_streams corpus ''d/vocoded_s2s/b/'' ''u'') 3,
          target_mask_of (side_streams corpus ''d/vocoded_s2s/b/'' ''u'') 3) \<and>
   rows (vf (side_streams corpus ''d/vocoded_s2s/a/'' ''u'')) = [[0], [3]] \<and>
   rows (source_features (side_streams corpus ''d/vocoded_s2s/a/'' ''u'')
           (side_streams corpus ''d/vocoded_s2s/b/'' ''u'') 0 1 3) ! 1 ! 42 = 0 \<and>
   rows (source_features (side_streams corpus ''d/vocoded_s2s/a/'' ''u'')
           (side_streams corpus ''d/vocoded_s2s/b/'' ''u'') 0 1 3) ! 2 ! 42 = 1"
proof -
  have v: "rows (vf (side_streams corpus ''d/vocoded_s2s/a/'' ''u'')) = [[0], [3]]"
    by code_simp
  from iffD1 [OF voiced_flag_of_pair [OF refl refl] corpus_pair_outcome]
  have a: "\<forall>i<2. rows (source_features (side_streams corpus ''d/vocoded_s2s/a/'' ''u'')
                       (side_streams corpus ''d/vocoded_s2s/b/'' ''u'') 0 1 3) ! (3 - 2 + i) ! 42 =
                  (if rows (vf (side_streams corpus ''d/vocoded_s2s/a/'' ''u'')) ! i ! 0 = 0
                   then 0 else 1)"
    unfolding corpus_frame_counts by blast
  have i: "(0::nat) < 2" "(1::nat) < 2"
    by simp_all
  have n: "3 - 2 + 0 = (1::nat)" "3 - 2 + 1 = (2::nat)"
    by simp_all
  from a [rule_format, OF i(1)] a [rule_format, OF i(2)]
  have "rows (source_features (side_streams corpus ''d/vocoded_s2s/a/'' ''u'')
           (side_streams corpus ''d/vocoded_s2s/b/'' ''u'') 0 1 3) ! 1 ! 42 = 0"
       "rows (source_features (side_streams corpus ''d/vocoded_s2s/a/'' ''u'')
           (side_streams corpus ''d/vocoded_s2s/b/'' ''u'') 0 1 3) ! 2 ! 42 = 1"
    unfolding n v by simp_all
  with corpus_pair_outcome v show ?thesis
    by blast
qed

lemma eos_flag_of_returned_pair:
  assumes "outcome (seq2seq_build_file_table e source_dir src_index target_dir trg_index
             basename longest_seq) = Inr (source_params, source_mask, target_params, target_mask)"
      and "s = side_streams e source_dir basename" and "t = side_streams e target_dir basename"
  shows "0 < nrows (vf s) \<and> nrows (vf s) \<le> longest_seq \<and>
         0 < nrows (vf t) \<and> nrows (vf t) \<le> longest_seq \<and>
         map (\<lambda>r. r ! 43) (rows source_params) =
           replicate (longest_seq - nrows (vf s)) 0 @ replicate (nrows (vf s) - 1) 0 @ [1] \<and>
         map (\<lambda>r. r ! 43) (rows target_params) =
           replicate (nrows (vf t) - 1) 0 @ [1] @ replicate (longest_seq - nrows (vf t)) 0 \<and>
         length (filter (\<lambda>v. v = 1) (map (\<lambda>r. r ! 43) (rows source_params))) = 1 \<and>
         length (filter (\<lambda>v. v = 1) (map (\<lambda>r. r ! 43) (rows target_params))) = 1"
proof -
  from assms(1) have ok: "build_returns e source_dir src_index target_dir trg_index basename longest_seq"
    and sp: "source_params = source_features s t src_index trg_index longest_seq"
    and tp: "target_params = target_features t longest_seq"
    by (simp_all add: build_file_table_iff assms(2,3))
  from ok have fit: "side_fits s src_index longest_seq" "side_fits t trg_index longest_seq"
    by (simp_all add: build_returns_def assms(2,3))
  then have le: "nrows (vf s) \<le> longest_seq" "nrows (vf t) \<le> longest_seq"
    and pos: "0 < nrows (vf s)" "0 < nrows (vf t)"
    by (simp_all add: side_fits_def)
  have "map (\<lambda>r. r ! 43) (rows source_params) =
          map (\<lambda>r. r ! 0) (rows (front_pad longest_seq (eos_column (nrows (vf s)))))"
  proof (rule nth_equalityI)
    show "length (map (\<lambda>r. r ! 43) (rows source_params)) =
          length (map (\<lambda>r. r ! 0) (rows (front_pad longest_seq (eos_column (nrows (vf s))))))"
      using le pos by (simp add: sp source_features_def hcat_def length_rows_eos_pad)
  next
    fix i assume "i < length (map (\<lambda>r. r ! 43) (rows source_params))"
    then have i: "i < longest_seq"
      by (simp add: sp source_features_def hcat_def)
    have "rows source_params ! i ! 43 =
            rows (front_pad longest_seq (eos_column (nrows (vf s)))) ! i ! 0"
      unfolding sp by (intro source_row(2) [OF fit i]) (simp_all add: assms(2))
    moreover have "length (rows source_params) = longest_seq"
      by (simp add: sp source_features_def hcat_def)
    moreover have "length (rows (front_pad longest_seq (eos_column (nrows (vf s))))) = longest_seq"
      using le pos by (simp add: length_rows_eos_pad)
    ultimately show "map (\<lambda>r. r ! 43) (rows source_params) ! i =
          map (\<lambda>r. r ! 0) (rows (front_pad longest_seq (eos_column (nrows (vf s))))) ! i"
      using i by simp
  qed
  then have src: "map (\<lambda>r. r ! 43) (rows source_params) =
      replicate (longest_seq - nrows (vf s)) 0 @ replicate (nrows (vf s) - 1) 0 @ [1]"
    using eos_rows_front [OF pos(1) le(1)] by simp
  have "map (\<lambda>r. r ! 43) (rows target_params) =
          map (\<lambda>r. r ! 0) (rows (back_pad longest_seq (eos_column (nrows (vf t)))))"
  proof (rule nth_equalityI)
    show "length (map (\<lambda>r. r ! 43) (rows target_params)) =
          length (map (\<lambda>r. r ! 0) (rows (back_pad longest_seq (eos_column (nrows (vf t))))))"
      using le pos by (simp add: tp target_features_def hcat_def length_rows_eos_pad)
  next
    fix i assume "i < length (map (\<lambda>r. r ! 43) (rows target_params))"
    then have i: "i < longest_seq"
      by (simp add: tp target_features_def hcat_def)
    have "rows target_params ! i ! 43 =
            rows (back_pad longest_seq (eos_column (nrows (vf t)))) ! i ! 0"
      unfolding tp by (intro target_row(2) [OF fit(2) i]) (simp_all add: assms(3))
    moreover have "length (rows target_params) = longest_seq"
      by (simp add: tp target_features_def hcat_def)
    moreover have "length (rows (back_pad longest_seq (eos_column (nrows (vf t))))) = longest_seq"
      using le pos by (simp add: length_rows_eos_pad)
    ultimately show "map (\<lambda>r. r ! 43) (rows target_params) ! i =
          map (\<lambda>r. r ! 0) (rows (back_pad longest_seq (eos_column (nrows (vf t))))) ! i"
      using i by simp
  qed
  then have trg: "map (\<lambda>r. r ! 43) (rows target_params) =
      replicate (nrows (vf t) - 1) 0 @ [1] @ replicate (longest_seq - nrows (vf t)) 0"
    using eos_rows_back [OF pos(2) le(2)] by simp
  show ?thesis
    using le pos by (simp add: src trg)
qed


text \<open>
  C7.  The pair builder returns exactly when it can; both sequences are then non-empty and
  the end-of-sequence flag is column 43 of both feature matrices.  In the source matrix the
  column is zero in the padding rows and in every frame of the sequence but the last one,
  where it is 1; in the target matrix it is zero in every frame but the last one, where it
  is 1, and zero in the padding rows.  Each column holds exactly one 1.
\<close>

theorem eos_flag_of_pair:
  assumes "s = side_streams e source_dir basename" and "t = side_streams e target_dir basename"
  shows "outcome (seq2seq_build_file_table e source_dir src_index target_dir trg_index
           basename longest_seq) = Inr (source_params, source_mask, target_params, target_mask)
         \<longleftrightarrow>
         build_returns e source_dir src_index target_dir trg_index basename longest_seq \<and>
         source_params = source_features s t src_index trg_index longest_seq \<and>
         source_mask = source_mask_of s longest_seq \<and>
         target_params = target_features t longest_seq \<and>
         target_mask = target_mask_of t longest_seq \<and>
         0 < nrows (vf s) \<and> nrows (vf s) \<le> longest_seq \<and>
         0 < nrows (vf t) \<and> nrows (vf t) \<le> longest_seq \<and>
         map (\<lambda>r. r ! 43) (rows source_params) =
           replicate (longest_seq - nrows (vf s)) 0 @ replicate (nrows (vf s) - 1) 0 @ [1] \<and>
         map (\<lambda>r. r ! 43) (rows target_params) =
           replicate (nrows (vf t) - 1) 0 @ [1] @ replicate (longest_seq - nrows (vf t)) 0 \<and>
         length (filter (\<lambda>v. v = 1) (map (\<lambda>r. r ! 43) (rows source_params))) = 1 \<and>
         length (filter (\<lambda>v. v = 1) (map (\<lambda>r. r ! 43) (rows target_params))) = 1"
    (is "?returns \<longleftrightarrow> ?described")
proof
  assume r: ?returns
  from eos_flag_of_returned_pair [OF r assms] r show ?described
    by (simp add: build_file_table_iff assms)
next
  assume ?described
  then show ?returns
    by (simp add: build_file_table_iff assms)
qed

theorem eos_flag_of_pair_witness:
  "outcome (seq2seq_build_file_table corpus ''d/vocoded_s2s/a/'' 0 ''d/vocoded_s2s/b/'' 1 ''u'' 3) =
     Inr (source_features (side_streams corpus ''d/vocoded_s2s/a/'' ''u'')
            (side_streams corpus ''d/vocoded_s2s/b/'' ''u'') 0 1 3,
          source_mask_of (side_streams corpus ''d/vocoded_s2s/a/'' ''u'') 3,
          target_features (side_streams corpus ''d/vocoded_s2s/b/'' ''u'') 3,
          target_mask_of (side_streams corpus ''d/vocoded_s2s/b/'' ''u'') 3) \<and>
   map (\<lambda>r. r ! 43) (rows (source_features (side_streams corpus ''d/vocoded_s2s/a/'' ''u'')
           (side_streams corpus ''d/vocoded_s2s/b/'' ''u'') 0 1 3)) =
     replicate (3 - 2) 0 @ replicate (2 - 1) 0 @ [1] \<and>
   map (\<lambda>r. r ! 43) (rows (target_features (side_streams corpus ''d/vocoded_s2s/b/'' ''u'') 3)) =
     replicate (3 - 1) 0 @ [1] @ replicate (3 - 3) 0"
  using iffD1 [OF eos_flag_of_pair [OF refl refl] corpus_pair_outcome] corpus_pair_outcome
  unfolding corpus_frame_counts by blast


section \<open>Shape checks of the pair builder\<close>

lemma parse_file_readable:
  "readable e w path \<Longrightarrow> outcome (parse_file e w path) = Inr (stream e w path)"
  by (simp add: parse_file_Inr)

lemma check_nonempty: "dir \<noteq> [] \<Longrightarrow> outcome (check_ends_in_slash dir msg) = Inr ()"
  by (simp add: check_ends_in_slash_def)

lemma py_assert_outcome:
  "outcome (py_assert c) = (if c then Inr () else Inl AssertionError)"
  by (simp add: py_assert_def)

text \<open>
  C5, as stated, has the builder fail when a raw stream and its interpolated variant differ
  in shape.  The builder compares no raw stream with its interpolated variant: with an
  interpolated log-F0 file shorter than the raw one it returns.
\<close>

theorem shape_mismatch_counterexample:
  "shape (f0 (side_streams corpus_short_interpolated ''d/vocoded_s2s/a/'' ''u'')) \<noteq>
     shape (f0_i (side_streams corpus_short_interpolated ''d/vocoded_s2s/a/'' ''u'')) \<and>
   outcome (seq2seq_build_file_table corpus_short_interpolated ''d/vocoded_s2s/a/'' 0
              ''d/vocoded_s2s/b/'' 1 ''u'' 3) =
     Inr (source_features (side_streams corpus_short_interpolated ''d/vocoded_s2s/a/'' ''u'')
            (side_streams corpus_short_interpolated ''d/vocoded_s2s/b/'' ''u'') 0 1 3,
          \<lparr>ncols = 1, rows = [[0], [1], [1]]\<rparr>,
          target_features (side_streams corpus_short_interpolated ''d/vocoded_s2s/b/'' ''u'') 3,
          \<lparr>ncols = 1, rows = [[1], [1], [1]]\<rparr>)"
  by code_simp

text \<open>
  C5, amended.  When the directory strings are not empty and the ten parameter files can be
  parsed, the builder raises AssertionError whenever the voicing stream's shape differs
  from the log-F0 stream's shape on the source side or on the target side.
\<close>

theorem shape_mismatch_fails:
  assumes "source_dir \<noteq> []" "target_dir \<noteq> []"
      and "side_readable e source_dir basename" "side_readable e target_dir basename"
      and "shape (vf (side_streams e source_dir basename)) \<noteq>
             shape (f0 (side_streams e source_dir basename)) \<or>
           shape (vf (side_streams e target_dir basename)) \<noteq>
             shape (f0 (side_streams e target_dir basename))"
  shows "outcome (seq2seq_build_file_table e source_dir src_index target_dir trg_index
           basename longest_seq) = Inl AssertionError"
  using assms
  unfolding seq2seq_build_file_table_def side_readable_def side_streams_def
  by (auto simp: outcome_and_then parse_file_readable check_nonempty py_assert_outcome)

theorem shape_mismatch_fails_witness:
  "outcome (seq2seq_build_file_table corpus_short_voicing ''d/vocoded_s2s/a/'' 0
              ''d/vocoded_s2s/b/'' 1 ''u'' 3) = Inl AssertionError"
proof -
  have 1: "''d/vocoded_s2s/a/'' \<noteq> []" "''d/vocoded_s2s/b/'' \<noteq> []"
    by simp_all
  have 2: "side_readable corpus_short_voicing ''d/vocoded_s2s/a/'' ''u''"
          "side_readable corpus_short_voicing ''d/vocoded_s2s/b/'' ''u''"
    by code_simp+
  have 3: "shape (vf (side_streams corpus_short_voicing ''d/vocoded_s2s/a/'' ''u'')) \<noteq>
             shape (f0 (side_streams corpus_short_voicing ''d/vocoded_s2s/a/'' ''u''))"
    by code_simp
  show ?thesis
    by (rule shape_mismatch_fails [OF 1 2 disjI1 [OF 3]])
qed


section \<open>The loops of the corpus assembler\<close>

lemma get_row_Inr: "outcome (get_row a i) = Inr r \<longleftrightarrow> i < length a \<and> r = a ! i"
  by (auto simp: get_row_def)

lemma process_pair_Inr:
  "outcome (process_pair e data_dir n (si, ss) (ti, ts) b a) = Inr a' \<longleftrightarrow>
     (\<exists>sp sm tp tm.
        outcome (seq2seq_build_file_table e (data_dir @ ''vocoded_s2s/'' @ ss @ ''/'') si
                   (data_dir @ ''vocoded_s2s/'' @ ts @ ''/'') ti b n) = Inr (sp, sm, tp, tm) \<and>
        si < length (spk_max a) \<and> si < length (spk_min a) \<and>
        a' = \<lparr>src_datatable = src_datatable a @ [sp],
              trg_datatable = trg_datatable a @ [tp],
              src_masks = src_masks a @ [sm],
              trg_masks = trg_masks a @ [tm],
              spk_max = (spk_max a)[si := map2 max (spk_max a ! si)
                  (ma_max (masked_fill e) (first_columns 42 sp) (one_minus (np_repeat1 sm 42)))],
              spk_min = (spk_min a)[si := map2 min (spk_min a ! si)
                  (ma_min (masked_fill e) (first_columns 42 sp) (one_minus (np_repeat1 sm 42)))]\<rparr>)"
  unfolding process_pair_def
  by (auto simp: and_then_Inr_iff get_row_Inr Let_def split: prod.splits)


lemma loop_basenames_invariant:
  assumes "outcome (loop_basenames e d n src trg bs a) = Inr a'" and "P a"
    and "\<And>b x x'. b \<in> set bs \<Longrightarrow> P x \<Longrightarrow>
           outcome (process_pair e d n src trg b x) = Inr x' \<Longrightarrow> P x'"
  shows "P a'"
  using assms
proof (induction bs arbitrary: a)
  case Nil
  then show ?case by simp
next
  case (Cons b bs)
  from Cons.prems(1) obtain x where
    x: "outcome (process_pair e d n src trg b a) = Inr x"
    and rest: "outcome (loop_basenames e d n src trg bs x) = Inr a'"
    by (auto simp: and_then_Inr_iff)
  have "P x" using Cons.prems(3) [OF _ Cons.prems(2) x] by simp
  with rest show ?case
    by (rule Cons.IH) (use Cons.prems(3) in auto)
qed

lemma loop_targets_invariant:
  assumes "outcome (loop_targets e d n src ts bs a) = Inr a'" and "P a"
    and "\<And>trg b x x'. trg \<in> set ts \<Longrightarrow> b \<in> set bs \<Longrightarrow> P x \<Longrightarrow>
           outcome (process_pair e d n src trg b x) = Inr x' \<Longrightarrow> P x'"
  shows "P a'"
  using assms
proof (induction ts arbitrary: a)
  case Nil
  then show ?case by simp
next
  case (Cons t ts)
  from Cons.prems(1) obtain x where
    x: "outcome (loop_basenames e d n src t bs a) = Inr x"
    and rest: "outcome (loop_targets e d n src ts bs x) = Inr a'"
    by (auto simp: and_then_Inr_iff)
  have px: "P x"
  proof (rule loop_basenames_invariant [where P = P, OF x Cons.prems(2)])
    fix b y y'
    assume "b \<in> set bs" "P y" "outcome (process_pair e d n src t b y) = Inr y'"
    then show "P y'" using Cons.prems(3) [of t b y y'] by simp
  qed
  show ?case
  proof (rule Cons.IH [OF rest px])
    fix trg b y y'
    assume "trg \<in> set ts" "b \<in> set bs" "P y"
      "outcome (process_pair e d n src trg b y) = Inr y'"
    then show "P y'" using Cons.prems(3) [of trg b y y'] by simp
  qed
qed

lemma loop_sources_invariant:
  assumes "outcome (loop_sources e d n ss ts bs a) = Inr a'" and "P a"
    and "\<And>src trg b x x'. src \<in> set ss \<Longrightarrow> trg \<in> set ts \<Longrightarrow> b \<in> set bs \<Longrightarrow> P x \<Longrightarrow>
           outcome (process_pair e d n src trg b x) = Inr x' \<Longrightarrow> P x'"
  shows "P a'"
  using assms
proof (induction ss arbitrary: a)
  case Nil
  then show ?case by simp
next
  case (Cons s ss)
  from Cons.prems(1) obtain x where
    x: "outcome (loop_targets e d n s ts bs a) = Inr x"
    and rest: "outcome (loop_sources e d n ss ts bs x) = Inr a'"
    by (auto simp: and_then_Inr_iff)
  have px: "P x"
  proof (rule loop_targets_invariant [where P = P, OF x Cons.prems(2)])
    fix trg b y y'
    assume "trg \<in> set ts" "b \<in> set bs" "P y"
      "outcome (process_pair e d n s trg b y) = Inr y'"
    then show "P y'" using Cons.prems(3) [of s trg b y y'] by simp
  qed
  show ?case
  proof (rule Cons.IH [OF rest px])
    fix src trg b y y'
    assume "src \<in> set ss" "trg \<in> set ts" "b \<in> set bs" "P y"
      "outcome (process_pair e d n src trg b y) = Inr y'"
    then show "P y'" using Cons.prems(3) [of src trg b y y'] by simp
  qed
qed

lemma process_pair_frame:
  assumes "outcome (process_pair e d n src trg b x) = Inr x'"
  shows "length (spk_max x') = length (spk_max x)" "length (spk_min x') = length (spk_min x)"
    "i \<noteq> fst src \<Longrightarrow> spk_max x' ! i = spk_max x ! i"
    "i \<noteq> fst src \<Longrightarrow> spk_min x' ! i = spk_min x ! i"
  using assms by (cases src; cases trg; auto simp: process_pair_Inr)+

lemma fst_enumerate_from0: "p \<in> set (enumerate_from0 xs) \<Longrightarrow> fst p < length xs"
  by (auto simp: enumerate_from0_def in_set_zip)

lemma loop_sources_frame:
  assumes "outcome (loop_sources e d n (enumerate_from0 speakers) ts bs a) = Inr a'"
    and "length speakers \<le> i"
  shows "spk_max a' ! i = spk_max a ! i \<and> spk_min a' ! i = spk_min a ! i \<and>
         length (spk_max a') = length (spk_max a) \<and> length (spk_min a') = length (spk_min a)"
proof (rule loop_sources_invariant [OF assms(1)])
  show "spk_max a ! i = spk_max a ! i \<and> spk_min a ! i = spk_min a ! i \<and>
        length (spk_max a) = length (spk_max a) \<and> length (spk_min a) = length (spk_min a)"
    by simp
next
  fix src trg b x x'
  assume src: "src \<in> set (enumerate_from0 speakers)"
    and inv: "spk_max x ! i = spk_max a ! i \<and> spk_min x ! i = spk_min a ! i \<and>
        length (spk_max x) = length (spk_max a) \<and> length (spk_min x) = length (spk_min a)"
    and step: "outcome (process_pair e d n src trg b x) = Inr x'"
  have "i \<noteq> fst src" using fst_enumerate_from0 [OF src] assms(2) by simp
  then show "spk_max x' ! i = spk_max a ! i \<and> spk_min x' ! i = spk_min a ! i \<and>
        length (spk_max x') = length (spk_max a) \<and> length (spk_min x') = length (spk_min a)"
    using process_pair_frame [OF step] inv by simp
qed

lemma construct_datatable_Inr:
  assumes "outcome (seq2seq_construct_datatable e data_dir speakers_file basenames_file) = Inr x"
  obtains speakers basenames n a r1 r2 r3 r4 m2 m4 where
    "data_dir \<noteq> []"
    "outcome (read_list_file e (data_dir @ speakers_file)) = Inr speakers"
    "outcome (read_list_file e (data_dir @ basenames_file)) = Inr basenames"
    "outcome (find_longest_sequence e data_dir speakers basenames) = Inr n"
    "outcome (loop_sources e data_dir n (enumerate_from0 speakers) (enumerate_from0 speakers)
                basenames initial_acc) = Inr a"
    "outcome (np_array (src_datatable a)) = Inr r1"
    "outcome (np_array (src_masks a)) = Inr m2" "outcome (reshape_rows m2 n) = Inr r2"
    "outcome (np_array (trg_datatable a)) = Inr r3"
    "outcome (np_array (trg_masks a)) = Inr m4" "outcome (reshape_rows m4 n) = Inr r4"
    "x = (r1, r2, r3, r4, n, spk_max a, spk_min a)"
  using assms unfolding seq2seq_construct_datatable_def and_then_Inr_iff
  by (auto simp: check_ends_in_slash_def split: if_splits)

lemma corpus_constructs:
  "outcome (seq2seq_construct_datatable corpus ''d/'' ''speakers.list''
              ''seq2seq_basenames.list'') = Inr corpus_datatable"
proof -
  have "\<not> isl (outcome (seq2seq_construct_datatable corpus ''d/'' ''speakers.list''
              ''seq2seq_basenames.list''))"
    by code_simp
  then show ?thesis
    unfolding corpus_datatable_def by (simp add: sum.collapse(2))
qed

lemma corpus_speakers:
  "outcome (read_list_file corpus (''d/'' @ ''speakers.list'')) = Inr [''a'', ''b'']"
  by code_simp

text \<open>
  C10.  When the assembler returns for a speakers file of \<open>S\<close> lines, its two statistics
  matrices have 10 rows, and every row with index at least \<open>S\<close> (and below 10) is still its
  seed: 42 zeros in the max matrix, 42 times \<^verbatim>\<open>1e+50\<close> in the min matrix.  Only rows indexed
  by a source speaker are assigned.
\<close>

theorem unused_speaker_rows_keep_seed:
  assumes "outcome (seq2seq_construct_datatable e data_dir speakers_file basenames_file) = Inr x"
      and "outcome (read_list_file e (data_dir @ speakers_file)) = Inr speakers"
  shows "length (speakers_max_of x) = 10 \<and> length (speakers_min_of x) = 10 \<and>
         (\<forall>i. length speakers \<le> i \<and> i < 10 \<longrightarrow>
            speakers_max_of x ! i = replicate 42 0 \<and>
            speakers_min_of x ! i = replicate 42 sentinel)"
proof -
  from assms(1) obtain speakers' basenames n a where
    sp: "outcome (read_list_file e (data_dir @ speakers_file)) = Inr speakers'"
    and loop: "outcome (loop_sources e data_dir n (enumerate_from0 speakers')
                (enumerate_from0 speakers') basenames initial_acc) = Inr a"
    and x: "speakers_max_of x = spk_max a" "speakers_min_of x = spk_min a"
    by (rule construct_datatable_Inr) (simp add: speakers_max_of_def speakers_min_of_def)
  from sp assms(2) have [simp]: "speakers' = speakers" by simp
  have len: "length (spk_max a) = 10" "length (spk_min a) = 10"
    using loop_sources_frame [OF loop, of "length speakers"] by (simp_all add: initial_acc_def)
  have "spk_max a ! i = replicate 42 0 \<and> spk_min a ! i = replicate 42 sentinel"
    if "length speakers \<le> i" "i < 10" for i
    using loop_sources_frame [OF loop, of i] that by (simp add: initial_acc_def)
  with len show ?thesis by (simp add: x)
qed


theorem unused_speaker_rows_keep_seed_witness:
  "speakers_max_of corpus_datatable ! 2 = replicate 42 0 \<and>
   speakers_min_of corpus_datatable ! 2 = replicate 42 sentinel"
proof -
  have "length [''a'', ''b''] \<le> (2::nat) \<and> (2::nat) < 10"
    by simp
  with unused_speaker_rows_keep_seed [OF corpus_constructs corpus_speakers]
  show ?thesis by blast
qed


section \<open>The statistics of a speaker\<close>

text \<open>
  One pass of the innermost loop never lowers an entry of the max accumulator and never
  raises an entry of the min accumulator.
\<close>

lemma process_pair_monotone:
  assumes "outcome (process_pair e d n src trg b x) = Inr x'"
  shows "j < length (spk_max x' ! i) \<Longrightarrow> spk_max x ! i ! j \<le> spk_max x' ! i ! j"
    and "j < length (spk_min x' ! i) \<Longrightarrow> spk_min x' ! i ! j \<le> spk_min x ! i ! j"
proof -
  obtain si ss ti ts where src: "src = (si, ss)" and trg: "trg = (ti, ts)"
    by (cases src; cases trg) auto
  from assms obtain mx mn where
    si: "si < length (spk_max x)" "si < length (spk_min x)"
    and mx: "spk_max x' = (spk_max x)[si := map2 max (spk_max x ! si) mx]"
    and mn: "spk_min x' = (spk_min x)[si := map2 min (spk_min x ! si) mn]"
    unfolding src trg process_pair_Inr by auto
  show "spk_max x ! i ! j \<le> spk_max x' ! i ! j" if "j < length (spk_max x' ! i)"
  proof (cases "i = si")
    case True
    with that si show ?thesis by (simp add: mx)
  next
    case False
    then show ?thesis by (simp add: mx)
  qed
  show "spk_min x' ! i ! j \<le> spk_min x ! i ! j" if "j < length (spk_min x' ! i)"
  proof (cases "i = si")
    case True
    with that si show ?thesis by (simp add: mn)
  next
    case False
    then show ?thesis by (simp add: mn)
  qed
qed

text \<open>
  C3.  In the corpus every spectral value of speaker \<^verbatim>\<open>a\<close> is negative: the frames of \<^verbatim>\<open>a\<close>
  are 40 times -1 and 40 times -2, so the true maximum of each spectral column over the
  frames of \<^verbatim>\<open>a\<close> that are not padding is -1.  The assembler returns 0 there, the seed of
  the max accumulator.  The minimum, seeded at \<^verbatim>\<open>1e+50\<close>, is the true one.
\<close>

theorem speakers_max_of_negative_column:
  "rows (mcp (side_streams corpus ''d/vocoded_s2s/a/'' ''u'')) =
     [replicate 40 (- 1), replicate 40 (- 2)] \<and>
   speakers_max_of corpus_datatable ! 0 = replicate 40 0 @ [5, 3] \<and>
   speakers_min_of corpus_datatable ! 0 = replicate 40 (- 2) @ [4, 2]"
  by code_simp


section \<open>Saving and loading\<close>

lemma process_pair_appends:
  assumes "outcome (process_pair e d n src trg b x) = Inr x'"
  shows "src_datatable x' \<noteq> []" "trg_datatable x' \<noteq> []"
  using assms by (cases src; cases trg; auto simp: process_pair_Inr)+

lemma loop_sources_nonempty:
  assumes "outcome (loop_sources e d n (s # ss) (t # ts) (b # bs) a) = Inr a'"
  shows "src_datatable a' \<noteq> [] \<and> trg_datatable a' \<noteq> []"
proof -
  let ?P = "\<lambda>x. src_datatable x \<noteq> [] \<and> trg_datatable x \<noteq> []"
  have step: "?P x'" if "outcome (process_pair e d n src trg c x) = Inr x'" for src trg c x x'
    using process_pair_appends [OF that] by simp
  from assms obtain x1 where
    x1: "outcome (loop_targets e d n s (t # ts) (b # bs) a) = Inr x1"
    and r1: "outcome (loop_sources e d n ss (t # ts) (b # bs) x1) = Inr a'"
    by (auto simp: and_then_Inr_iff)
  from x1 obtain x2 where
    x2: "outcome (loop_basenames e d n s t (b # bs) a) = Inr x2"
    and r2: "outcome (loop_targets e d n s ts (b # bs) x2) = Inr x1"
    by (auto simp: and_then_Inr_iff)
  from x2 obtain x3 where
    x3: "outcome (process_pair e d n s t b a) = Inr x3"
    and r3: "outcome (loop_basenames e d n s t bs x3) = Inr x2"
    by (auto simp: and_then_Inr_iff)
  have "?P x3" by (rule step [OF x3])
  with r3 have "?P x2"
    by (rule loop_basenames_invariant [where P = ?P]) (rule step)
  with r2 have "?P x1"
    by (rule loop_targets_invariant [where P = ?P]) (rule step)
  with r1 show "?P a'"
    by (rule loop_sources_invariant [where P = ?P]) (rule step)
qed

lemma reshape_rows_Inr:
  "outcome (reshape_rows m k) = Inr r \<Longrightarrow> k \<noteq> 0 \<and> length (dims r) = 2"
  by (auto simp: reshape_rows_def split: if_splits)

lemma np_array_Inr:
  "outcome (np_array arrays) = Inr r \<Longrightarrow> arrays \<noteq> [] \<Longrightarrow> length (dims r) = 3"
  by (auto simp: np_array_def split: list.splits if_splits)

lemma find_longest_sequence_positive:
  assumes "outcome (find_longest_sequence e d speakers basenames) = Inr n" "n \<noteq> 0"
  shows "speakers \<noteq> [] \<and> basenames \<noteq> []"
proof (rule ccontr)
  assume "\<not> (speakers \<noteq> [] \<and> basenames \<noteq> [])"
  then have "set speakers \<times> set basenames = {}" by auto
  with assms(1) have "n = 0"
    by (simp add: find_longest_sequence_Inr_iff)
  with assms(2) show False by simp
qed


lemma enumerate_from0_Nil [simp]: "enumerate_from0 xs = [] \<longleftrightarrow> xs = []"
  by (cases xs) (auto simp: enumerate_from0_def upt_rec)

lemma construct_datatable_dims:
  assumes "outcome (seq2seq_construct_datatable e data_dir speakers_file basenames_file) =
             Inr (r1, r2, r3, r4, rest)"
  shows "2 \<le> length (dims r1) \<and> 2 \<le> length (dims r2) \<and>
         2 \<le> length (dims r3) \<and> 2 \<le> length (dims r4)"
proof -
  from assms obtain speakers basenames n a m2 m4 where
    longest: "outcome (find_longest_sequence e data_dir speakers basenames) = Inr n"
    and loop: "outcome (loop_sources e data_dir n (enumerate_from0 speakers)
                (enumerate_from0 speakers) basenames initial_acc) = Inr a"
    and r1: "outcome (np_array (src_datatable a)) = Inr r1"
    and r2: "outcome (reshape_rows m2 n) = Inr r2"
    and r3: "outcome (np_array (trg_datatable a)) = Inr r3"
    and r4: "outcome (reshape_rows m4 n) = Inr r4"
    by (rule construct_datatable_Inr) simp
  from reshape_rows_Inr [OF r2] have n: "n \<noteq> 0" and d2: "length (dims r2) = 2"
    by simp_all
  from reshape_rows_Inr [OF r4] have d4: "length (dims r4) = 2"
    by simp
  from find_longest_sequence_positive [OF longest n]
  obtain s ss b bs where "speakers = s # ss" "basenames = b # bs"
    by (cases speakers; cases basenames) auto
  then obtain p ps where "enumerate_from0 speakers = p # ps" "basenames = b # bs"
    by (cases "enumerate_from0 speakers") auto
  with loop have "src_datatable a \<noteq> [] \<and> trg_datatable a \<noteq> []"
    using loop_sources_nonempty [of e data_dir n p ps p ps b bs initial_acc a] by simp
  with np_array_Inr [OF r1] np_array_Inr [OF r3] d2 d4 show ?thesis
    by simp
qed

lemma slice_all2_Inr: "2 \<le> length (dims d) \<Longrightarrow> outcome (slice_all2 d) = Inr d"
  by (simp add: slice_all2_def)

lemma h5_dataset_Inr: "datasets f name = Some d \<Longrightarrow> outcome (h5_dataset f name) = Inr d"
  by (simp add: h5_dataset_def)

lemma save_datatable_InrD:
  assumes "outcome (seq2seq_save_datatable e store data_dir out_file) = Inr (store', x)"
  shows "data_dir \<noteq> []"
    and "outcome (seq2seq_construct_datatable e data_dir ''speakers.list''
                    ''seq2seq_basenames.list'') = Inr x"
  using assms unfolding seq2seq_save_datatable_def and_then_Inr_iff
  by (auto simp: check_ends_in_slash_def split: prod.splits if_splits)

lemma save_datatable_outcome:
  assumes "data_dir \<noteq> []"
    and "outcome (seq2seq_construct_datatable e data_dir ''speakers.list''
                    ''seq2seq_basenames.list'') = Inr (r1, r2, r3, r4, n, mx, mn)"
  shows "outcome (seq2seq_save_datatable e store data_dir out_file) =
           Inr (store(out_file @ ''.h5'' \<mapsto>
                  \<lparr>attrs = [''max_seq_length'' \<mapsto> AttrInt (int n),
                            ''speakers_max'' \<mapsto> AttrMatrix mx,
                            ''speakers_min'' \<mapsto> AttrMatrix mn],
                   datasets = [''src_datatable'' \<mapsto> r1, ''trg_datatable'' \<mapsto> r3,
                               ''src_mask'' \<mapsto> r2, ''trg_mask'' \<mapsto> r4]\<rparr>),
                (r1, r2, r3, r4, n, mx, mn))"
  using assms unfolding seq2seq_save_datatable_def
  by (simp add: outcome_and_then check_nonempty attrs_create_def create_dataset_def)

text \<open>
  C1.  When \<^verbatim>\<open>seq2seq_save_datatable\<close> returns a 7-tuple, the tuple is the one that the
  assembler produced, and \<^verbatim>\<open>seq2seq2_load_datatable\<close> on the file that was written (the
  output name with \<^verbatim>\<open>.h5\<close> appended) returns: the same four arrays, the longest-sequence
  length and the two statistics matrices, all as they were saved.
\<close>

theorem save_load_round_trip:
  assumes "outcome (seq2seq_save_datatable e store data_dir datatable_out_file) =
             Inr (store', x)"
  shows "outcome (seq2seq_construct_datatable e data_dir ''speakers.list''
                    ''seq2seq_basenames.list'') = Inr x \<and>
         outcome (seq2seq2_load_datatable store' (datatable_out_file @ ''.h5'')) =
           Inr (as_loaded x)"
proof -
  obtain r1 r2 r3 r4 n mx mn where x: "x = (r1, r2, r3, r4, n, mx, mn)"
    by (cases x) auto
  note c = save_datatable_InrD [OF assms]
  from save_datatable_outcome [OF c [unfolded x], of store datatable_out_file] assms
  have s: "store' = store(datatable_out_file @ ''.h5'' \<mapsto>
       \<lparr>attrs = [''max_seq_length'' \<mapsto> AttrInt (int n),
                 ''speakers_max'' \<mapsto> AttrMatrix mx,
                 ''speakers_min'' \<mapsto> AttrMatrix mn],
        datasets = [''src_datatable'' \<mapsto> r1, ''trg_datatable'' \<mapsto> r3,
                    ''src_mask'' \<mapsto> r2, ''trg_mask'' \<mapsto> r4]\<rparr>)"
    by (simp add: x)
  from construct_datatable_dims [OF c(2) [unfolded x]]
  have d: "2 \<le> length (dims r1)" "2 \<le> length (dims r2)"
          "2 \<le> length (dims r3)" "2 \<le> length (dims r4)"
    by simp_all
  have "outcome (seq2seq2_load_datatable store' (datatable_out_file @ ''.h5'')) =
          Inr (as_loaded x)"
    unfolding seq2seq2_load_datatable_def s x as_loaded_def
    by (simp add: outcome_and_then h5_dataset_Inr slice_all2_Inr d)
  with c(2) show ?thesis by simp
qed

lemma corpus_saves:
  "outcome (seq2seq_save_datatable corpus Map.empty ''d/'' ''out'') =
     Inr (corpus_store, corpus_datatable)"
proof -
  obtain r1 r2 r3 r4 n mx mn where x: "corpus_datatable = (r1, r2, r3, r4, n, mx, mn)"
    by (cases corpus_datatable) auto
  have "''d/'' \<noteq> []" by simp
  from save_datatable_outcome [OF this corpus_constructs [unfolded x], of Map.empty "''out''"]
  show ?thesis
    unfolding corpus_store_def x by simp
qed

theorem save_load_round_trip_witness:
  "outcome (seq2seq2_load_datatable corpus_store (''out'' @ ''.h5'')) =
     Inr (as_loaded corpus_datatable)"
  using save_load_round_trip [OF corpus_saves] by (rule conjunct2)


end
